theory Spec2Isabelle
  imports Main "HOL-Library.Multiset"
begin

section \<open>Go strings\<close>

text \<open>
  A Go string is a sequence of bytes; it is modelled as a \<^typ>\<open>string\<close>. The functions
  below are the ones of Go's \<^verbatim>\<open>strings\<close> package that the program calls, with their
  Go names. \<^verbatim>\<open>strings.Index\<close> and \<^verbatim>\<open>strings.LastIndex\<close> return \<open>-1\<close> when the
  substring does not occur, so they return an \<^typ>\<open>int\<close>.
\<close>

definition HasPrefix :: "string \<Rightarrow> string \<Rightarrow> bool" where
  "HasPrefix s p = (take (length p) s = p)"

definition HasSuffix :: "string \<Rightarrow> string \<Rightarrow> bool" where
  "HasSuffix s p = (length p \<le> length s \<and> drop (length s - length p) s = p)"

definition TrimPrefix :: "string \<Rightarrow> string \<Rightarrow> string" where
  "TrimPrefix s p = (if HasPrefix s p then drop (length p) s else s)"

definition TrimSuffix :: "string \<Rightarrow> string \<Rightarrow> string" where
  "TrimSuffix s p = (if HasSuffix s p then take (length s - length p) s else s)"

fun Contains :: "string \<Rightarrow> string \<Rightarrow> bool" where
  "Contains [] sub = (sub = [])"
| "Contains (c # cs) sub = (HasPrefix (c # cs) sub \<or> Contains cs sub)"

fun Index :: "string \<Rightarrow> string \<Rightarrow> int" where
  "Index [] sub = (if sub = [] then 0 else -1)"
| "Index (c # cs) sub =
     (if HasPrefix (c # cs) sub then 0
      else (let r = Index cs sub in if r = -1 then -1 else r + 1))"

fun LastIndex :: "string \<Rightarrow> string \<Rightarrow> int" where
  "LastIndex [] sub = (if sub = [] then 0 else -1)"
| "LastIndex (c # cs) sub =
     (let r = LastIndex cs sub in
      if r \<noteq> -1 then r + 1 else if HasPrefix (c # cs) sub then 0 else -1)"

text \<open>
  \<^verbatim>\<open>strings.TrimSpace\<close> removes leading and trailing white space. The text is taken
  as ASCII: the white space characters are tab, line feed, vertical tab, form feed, carriage
  return and space.
\<close>

definition isSpace :: "char \<Rightarrow> bool" where
  "isSpace c = (c = CHR 0x09 \<or> c = CHR 0x0A \<or> c = CHR 0x0B \<or> c = CHR 0x0C \<or> c = CHR 0x0D
     \<or> c = CHR '' '')"

definition TrimSpace :: "string \<Rightarrow> string" where
  "TrimSpace s = rev (dropWhile isSpace (rev (dropWhile isSpace s)))"

fun Join :: "string list \<Rightarrow> string \<Rightarrow> string" where
  "Join [] sep = []"
| "Join [x] sep = x"
| "Join (x # y # ys) sep = x @ sep @ Join (y # ys) sep"

text \<open>The verb \<^verbatim>\<open>%d\<close> of \<^verbatim>\<open>fmt.Sprintf\<close>: an integer in decimal.\<close>

definition digit :: "nat \<Rightarrow> char" where
  "digit n = ''0123456789'' ! n"

function decimal :: "nat \<Rightarrow> string" where
  "decimal n = (if n < 10 then [digit n] else decimal (n div 10) @ [digit (n mod 10)])"
  by pat_completeness auto
termination
  by (relation "measure id") auto

declare decimal.simps [simp del]

definition fmt_d :: "int \<Rightarrow> string" where
  "fmt_d n = (if n < 0 then CHR ''-'' # decimal (nat (- n)) else decimal (nat n))"

text \<open>
  \<^verbatim>\<open>strings.ToLower\<close> on ASCII text, \<^verbatim>\<open>strings.Split\<close> for a separator that is not empty,
  and \<^verbatim>\<open>filepath.Ext\<close>: the suffix from the last dot of the last element of the path, with
  the slash as the separator of the elements.
\<close>

definition toLowerChar :: "char \<Rightarrow> char" where
  "toLowerChar c =
     (case map_of (zip ''ABCDEFGHIJKLMNOPQRSTUVWXYZ'' ''abcdefghijklmnopqrstuvwxyz'') c of
        Some l \<Rightarrow> l
      | None \<Rightarrow> c)"

definition ToLower :: "string \<Rightarrow> string" where
  "ToLower s = map toLowerChar s"

fun split_from :: "string \<Rightarrow> string \<Rightarrow> string \<Rightarrow> string list" where
  "split_from [] sep cur = [cur]"
| "split_from (c # cs) sep cur =
     (if HasPrefix (c # cs) sep then cur # split_from (drop (length sep - 1) cs) sep []
      else split_from cs sep (cur @ [c]))"

definition Split :: "string \<Rightarrow> string \<Rightarrow> string list" where
  "Split s sep = split_from s sep []"

definition Ext :: "string \<Rightarrow> string" where
  "Ext path =
     (let r = rev path;
          t = takeWhile (\<lambda>c. c \<noteq> CHR ''.'' \<and> c \<noteq> CHR ''/'') r
      in if length t < length r \<and> r ! length t = CHR ''.'' then CHR ''.'' # rev t else [])"

section \<open>Condensing a requirement list\<close>

text \<open>
  \<^verbatim>\<open>condenseRequirements\<close> (scoring/scorer.go). The loop
  \<^verbatim>\<open>for i := 0; i < count; i++\<close> appends to the string builder \<open>sb\<close>; the bound
  (\<open>cnt\<close> here) is at most \<open>len(items)\<close>, so \<open>items[i]\<close> is always in range.
\<close>

function condense_loop :: "string list \<Rightarrow> nat \<Rightarrow> int \<Rightarrow> string \<Rightarrow> string" where
  "condense_loop items i cnt sb =
     (if int i < cnt
      then condense_loop items (Suc i) cnt ((if i > 0 then sb @ ''; '' else sb) @ items ! i)
      else sb)"
  by pat_completeness auto
termination
  by (relation "measure (\<lambda>(items, i, cnt, sb). nat (cnt - int i))") auto

declare condense_loop.simps [simp del]

definition condenseRequirements :: "string \<Rightarrow> string list \<Rightarrow> int \<Rightarrow> string" where
  "condenseRequirements category items maxItems =
     (if length items = 0 then ''''
      else
        let sb = category @ '': '';
            cnt = (if int (length items) > maxItems then maxItems else int (length items));
            sb = condense_loop items 0 cnt sb;
            sb = (if int (length items) > maxItems
                  then sb @ '' (+'' @ fmt_d (int (length items) - maxItems) @ '' more)''
                  else sb)
        in sb @ [CHR 0x0A])"

section \<open>Errors\<close>

text \<open>
  A Go \<^verbatim>\<open>error\<close>. \<open>Canceled\<close> is \<^verbatim>\<open>context.Canceled\<close>, the value of \<^verbatim>\<open>ctx.Err()\<close> once
  the caller has cancelled; \<open>Msg\<close> is an error made from a message alone
  (\<^verbatim>\<open>fmt.Errorf\<close> without \<^verbatim>\<open>%w\<close>, \<^verbatim>\<open>errors.New\<close>, an error of a library);
  \<open>Wrap pre e post\<close> is \<^verbatim>\<open>fmt.Errorf("pre%wpost", e)\<close>, which keeps \<open>e\<close> inside.
  \<open>Error\<close> is the method \<^verbatim>\<open>Error()\<close>; \<open>Is_Canceled\<close> is
  \<^verbatim>\<open>errors.Is(err, context.Canceled)\<close>, which looks through the wrappers, whereas the
  comparison \<^verbatim>\<open>err == context.Canceled\<close> is the equality \<open>e = Canceled\<close>.
\<close>

datatype err = Canceled | Msg string | Wrap string err string

fun Error :: "err \<Rightarrow> string" where
  "Error Canceled = ''context canceled''"
| "Error (Msg m) = m"
| "Error (Wrap pre e post) = pre @ Error e @ post"

fun Is_Canceled :: "err \<Rightarrow> bool" where
  "Is_Canceled Canceled = True"
| "Is_Canceled (Msg m) = False"
| "Is_Canceled (Wrap pre e post) = Is_Canceled e"

section \<open>Scores and their decoding\<close>

text \<open>
  \<^verbatim>\<open>models.Scores\<close>. The scores are \<^verbatim>\<open>float64\<close> in the source; the number type is the
  parameter \<open>'n\<close> here, of which the program uses the addition and the order only, so no
  law of exact arithmetic enters a proof.
\<close>

record 'n Scores =
  ExperienceScore :: 'n
  EducationScore :: 'n
  DutiesScore :: 'n
  CoverLetterScore :: 'n
  TotalScore :: 'n
  ExperienceReasoning :: string
  EducationReasoning :: string
  DutiesReasoning :: string
  CoverLetterReasoning :: string

text \<open>The zero value \<^verbatim>\<open>models.Scores{}\<close>.\<close>

definition zero_scores :: "('n::zero) Scores" where
  "zero_scores =
     \<lparr>ExperienceScore = 0, EducationScore = 0, DutiesScore = 0, CoverLetterScore = 0,
      TotalScore = 0, ExperienceReasoning = [], EducationReasoning = [],
      DutiesReasoning = [], CoverLetterReasoning = []\<rparr>"

definition truncate_str :: "string \<Rightarrow> nat \<Rightarrow> string" where
  "truncate_str s maxLen = (if length s \<le> maxLen then s else take maxLen s @ ''...'')"

text \<open>The slice expression \<^verbatim>\<open>s[lo:hi]\<close>, for \<open>0 \<le> lo \<le> hi \<le> len(s)\<close>.\<close>

definition slice :: "string \<Rightarrow> int \<Rightarrow> int \<Rightarrow> string" where
  "slice s lo hi = take (nat (hi - lo)) (drop (nat lo) s)"

text \<open>
  \<^verbatim>\<open>parseScores\<close> (scoring/scorer.go). \<^verbatim>\<open>json.Unmarshal\<close> into a fresh
  \<^verbatim>\<open>models.Scores\<close> is the parameter \<open>unmarshal\<close>: it gives the decoded record or the
  decoder's error. The first part of the function, which strips a code fence when the
  response contains the marker, is \<open>cleanResponse\<close>.
\<close>

definition cleanResponse :: "string \<Rightarrow> string" where
  "cleanResponse response =
     (if Contains response ''```json''
      then
        let cleaned = TrimSpace response;
            cleaned = (if HasPrefix cleaned ''```json'' then TrimPrefix cleaned ''```json''
                       else TrimPrefix cleaned ''```'');
            cleaned = TrimSuffix cleaned ''```''
        in TrimSpace cleaned
      else response)"

definition parseScores :: "(string \<Rightarrow> err + 'n Scores) \<Rightarrow> string \<Rightarrow> err + 'n Scores" where
  "parseScores unmarshal response =
     (let cleanedResponse = cleanResponse response in
      case unmarshal cleanedResponse of
        Inr scores \<Rightarrow> Inr scores
      | Inl _ \<Rightarrow>
          let startIdx = Index cleanedResponse ''{'';
              endIdx = LastIndex cleanedResponse ''}''
          in if startIdx = -1 \<or> endIdx = -1 \<or> startIdx \<ge> endIdx
             then Inl (Msg (''no JSON found in response: '' @ truncate_str response 200))
             else
               let jsonStr = slice cleanedResponse startIdx (endIdx + 1) in
               case unmarshal jsonStr of
                 Inl e \<Rightarrow> Inl (Wrap ''failed to parse extracted JSON: '' e
                                 ([CHR 0x0A] @ ''Extracted: '' @ truncate_str jsonStr 200))
               | Inr scores \<Rightarrow> Inr scores)"

text \<open>
  \<^verbatim>\<open>GenerateContent\<close> (llm client). The reply of the remote model is an error or a list of
  candidates, each a list of parts; a part is a text or something else.
\<close>

datatype part = Text string | OtherPart

fun part_text :: "part \<Rightarrow> string" where
  "part_text (Text t) = t"
| "part_text OtherPart = []"

definition GenerateContent :: "err + part list list \<Rightarrow> err + string" where
  "GenerateContent resp =
     (case resp of
        Inl e \<Rightarrow> Inl (Wrap ''failed to generate content: '' e [])
      | Inr [] \<Rightarrow> Inl (Msg ''no response candidates returned'')
      | Inr (c # _) \<Rightarrow> Inr (concat (map part_text c)))"

text \<open>
  \<^verbatim>\<open>ScoreApplicant\<close> (scoring/scorer.go). The prompt does not enter the result except through
  the remote model, whose reply \<open>resp\<close> is given.
\<close>

definition ScoreApplicant ::
  "(string \<Rightarrow> err + ('n::plus) Scores) \<Rightarrow> err + part list list \<Rightarrow> err + 'n Scores" where
  "ScoreApplicant unmarshal resp =
     (case GenerateContent resp of
        Inl e \<Rightarrow> Inl (Wrap ''failed to get LLM response: '' e [])
      | Inr response \<Rightarrow>
          (case parseScores unmarshal response of
             Inl e \<Rightarrow> Inl (Wrap ''failed to parse scores: '' e [])
           | Inr scores \<Rightarrow>
               Inr (scores\<lparr>TotalScore := ExperienceScore scores + EducationScore scores
                                  + DutiesScore scores + CoverLetterScore scores\<rparr>)))"

subsection \<open>A decoder for the examples\<close>

text \<open>
  The general statements hold for every decoder. The examples need one that runs:
  \<open>unmarshalFlat\<close> decodes the JSON texts used in them, which are objects whose members are
  unsigned whole numbers and strings without escapes. As \<^verbatim>\<open>json.Unmarshal\<close> does, it allows
  white space between the tokens, ignores members that \<^verbatim>\<open>models.Scores\<close> does not have,
  leaves a field without a member at zero, and rejects a value of the wrong type and any text
  before or after the object.
\<close>

definition skip_ws :: "string \<Rightarrow> string" where
  "skip_ws s = dropWhile isSpace s"

fun span_string :: "string \<Rightarrow> (string \<times> string) option" where
  "span_string [] = None"
| "span_string (c # cs) =
     (if c = CHR 0x22 then Some ([], cs)
      else if c = CHR 0x5C then None
      else (case span_string cs of None \<Rightarrow> None | Some (a, r) \<Rightarrow> Some (c # a, r)))"

definition isDigit :: "char \<Rightarrow> bool" where
  "isDigit c = (c \<in> set ''0123456789'')"

definition digit_val :: "char \<Rightarrow> nat" where
  "digit_val c = of_char c - 48"

definition read_nat :: "string \<Rightarrow> (nat \<times> string) option" where
  "read_nat s =
     (let ds = takeWhile isDigit s in
      if ds = [] then None
      else Some (foldl (\<lambda>n c. 10 * n + digit_val c) 0 ds, dropWhile isDigit s))"

datatype jvalue = JNum nat | JStr string

definition read_value :: "string \<Rightarrow> (jvalue \<times> string) option" where
  "read_value s =
     (case s of
        [] \<Rightarrow> None
      | c # cs \<Rightarrow>
          if c = CHR 0x22
          then (case span_string cs of None \<Rightarrow> None | Some (a, r) \<Rightarrow> Some (JStr a, r))
          else (case read_nat s of None \<Rightarrow> None | Some (n, r) \<Rightarrow> Some (JNum n, r)))"

definition set_num :: "jvalue \<Rightarrow> (int \<Rightarrow> int Scores) \<Rightarrow> int Scores option" where
  "set_num v upd = (case v of JNum n \<Rightarrow> Some (upd (int n)) | JStr _ \<Rightarrow> None)"

definition set_str :: "jvalue \<Rightarrow> (string \<Rightarrow> int Scores) \<Rightarrow> int Scores option" where
  "set_str v upd = (case v of JStr t \<Rightarrow> Some (upd t) | JNum _ \<Rightarrow> None)"

definition set_field :: "string \<Rightarrow> jvalue \<Rightarrow> int Scores \<Rightarrow> int Scores option" where
  "set_field key v sc =
     (if key = ''experience_score'' then set_num v (\<lambda>x. sc\<lparr>ExperienceScore := x\<rparr>)
      else if key = ''education_score'' then set_num v (\<lambda>x. sc\<lparr>EducationScore := x\<rparr>)
      else if key = ''duties_score'' then set_num v (\<lambda>x. sc\<lparr>DutiesScore := x\<rparr>)
      else if key = ''cover_letter_score'' then set_num v (\<lambda>x. sc\<lparr>CoverLetterScore := x\<rparr>)
      else if key = ''total_score'' then set_num v (\<lambda>x. sc\<lparr>TotalScore := x\<rparr>)
      else if key = ''experience_reasoning'' then set_str v (\<lambda>t. sc\<lparr>ExperienceReasoning := t\<rparr>)
      else if key = ''education_reasoning'' then set_str v (\<lambda>t. sc\<lparr>EducationReasoning := t\<rparr>)
      else if key = ''duties_reasoning'' then set_str v (\<lambda>t. sc\<lparr>DutiesReasoning := t\<rparr>)
      else if key = ''cover_letter_reasoning''
      then set_str v (\<lambda>t. sc\<lparr>CoverLetterReasoning := t\<rparr>)
      else Some sc)"

text \<open>
  The members of the object, from the first character after the opening brace or after a
  comma. Every member takes at least one character, so the length of the text bounds the
  number of rounds.
\<close>

fun members :: "nat \<Rightarrow> string \<Rightarrow> int Scores \<Rightarrow> int Scores option" where
  "members 0 s sc = None"
| "members (Suc k) s sc =
     (case skip_ws s of
        [] \<Rightarrow> None
      | q # s1 \<Rightarrow>
          if q \<noteq> CHR 0x22 then None
          else
            (case span_string s1 of
               None \<Rightarrow> None
             | Some (key, s2) \<Rightarrow>
                 (case skip_ws s2 of
                    [] \<Rightarrow> None
                  | colon # s3 \<Rightarrow>
                      if colon \<noteq> CHR '':'' then None
                      else
                        (case read_value (skip_ws s3) of
                           None \<Rightarrow> None
                         | Some (v, s4) \<Rightarrow>
                             (case set_field key v sc of
                                None \<Rightarrow> None
                              | Some sc' \<Rightarrow>
                                  (case skip_ws s4 of
                                     [] \<Rightarrow> None
                                   | d # s5 \<Rightarrow>
                                       if d = CHR '','' then members k s5 sc'
                                       else if d = CHR ''}'' \<and> skip_ws s5 = [] then Some sc'
                                       else None))))))"

definition unmarshalFlat :: "string \<Rightarrow> err + int Scores" where
  "unmarshalFlat s =
     (case skip_ws s of
        [] \<Rightarrow> Inl (Msg ''unexpected end of JSON input'')
      | b # s1 \<Rightarrow>
          if b \<noteq> CHR ''{'' then Inl (Msg ''invalid character looking for beginning of value'')
          else
            (case skip_ws s1 of
               [] \<Rightarrow> Inl (Msg ''unexpected end of JSON input'')
             | c # s2 \<Rightarrow>
                 if c = CHR ''}''
                 then (if skip_ws s2 = [] then Inr zero_scores
                       else Inl (Msg ''invalid character after top-level value''))
                 else (case members (length s1) s1 zero_scores of
                         None \<Rightarrow> Inl (Msg ''cannot decode the object'')
                       | Some sc \<Rightarrow> Inr sc)))"

text \<open>
  A record text: the text of a JSON object, from its opening brace to its closing brace.
\<close>

definition record_text :: "string \<Rightarrow> bool" where
  "record_text R = (2 \<le> length R \<and> hd R = CHR ''{'' \<and> last R = CHR ''}'')"

text \<open>The record and the scores of the examples.\<close>

definition example_record :: string where
  \<open>example_record =
     ''{"experience_score":45,"education_score":18,"duties_score":17,"cover_letter_score":8,"total_score":10}''\<close>

definition example_scores :: "int Scores" where
  "example_scores = zero_scores\<lparr>ExperienceScore := 45, EducationScore := 18, DutiesScore := 17,
     CoverLetterScore := 8, TotalScore := 10\<rparr>"

section \<open>The evaluation of the applicants\<close>

text \<open>
  \<^verbatim>\<open>models.JobDescription\<close>, \<^verbatim>\<open>models.ApplicantDocument\<close> and \<^verbatim>\<open>models.ApplicantResult\<close>. The
  fields \<^verbatim>\<open>Name\<close>, \<^verbatim>\<open>Scores\<close>, \<^verbatim>\<open>CVPath\<close> and \<^verbatim>\<open>CLPath\<close> of a result carry the prefix
  \<open>Result\<close> here, since two records cannot share a field name.
\<close>

record JobDescription =
  Title :: string
  RequiredExperience :: "string list"
  RequiredEducation :: "string list"
  RequiredDuties :: "string list"
  NiceToHaveExperience :: "string list"
  NiceToHaveEducation :: "string list"
  NiceToHaveDuties :: "string list"
  Description :: string

record ApplicantDocument =
  Name :: string
  CVContent :: string
  CVPath :: string
  CLContent :: string
  CLPath :: string

record 'n ApplicantResult =
  ResultName :: string
  ResultScores :: "'n Scores"
  Rank :: int
  ResultCVPath :: string
  ResultCLPath :: string

text \<open>
  What a run does to the outside is recorded as a list of events: a call of the progress
  callback with its triple (current, total, message), a \<^verbatim>\<open>time.Sleep\<close> in seconds, a call
  of \<^verbatim>\<open>ScoreApplicant\<close> for the applicant of that name, and the calls of the mail service
  and the file written by the fetch.
\<close>

datatype event =
    Progress int int string
  | Sleep nat
  | Evaluate string
  | ListMessages
  | GetMessage string
  | GetAttachment string string
  | WriteFile string

text \<open>
  The context is observed at the checks \<^verbatim>\<open>select { case <-ctx.Done(): ... }\<close> only. Its
  model says for each check whether the context is done when the run reaches it: the check
  before the listing of page \<open>k\<close>, before the message \<open>i\<close>, before the attempt \<open>a\<close> on
  the message \<open>i\<close>, and before the applicant \<open>i\<close>. \<^verbatim>\<open>ctx.Err()\<close> is then \<open>Canceled\<close>.
\<close>

datatype checkpoint = AtPage nat | AtItem nat | AtAttempt nat nat | AtApplicant nat

type_synonym cancel_ctx = "checkpoint \<Rightarrow> bool"

text \<open>The constants of the rate limiting (agent.go), durations in seconds.\<close>

definition requestDelay :: nat where "requestDelay = 4"
definition maxRetries :: nat where "maxRetries = 3"
definition retryBackoff :: nat where "retryBackoff = 10"

definition isRateLimitError :: "err option \<Rightarrow> bool" where
  "isRateLimitError err =
     (case err of
        None \<Rightarrow> False
      | Some e \<Rightarrow>
          let errMsg = Error e in
          Contains errMsg ''ResourceExhausted'' \<or> Contains errMsg ''429''
          \<or> Contains errMsg ''rate limit'' \<or> Contains errMsg ''quota'')"

text \<open>
  The messages and the progress value of \<^verbatim>\<open>processApplicants\<close>:
  \<^verbatim>\<open>progress := baseProgress + (35 * i / len(documents))\<close> with \<^verbatim>\<open>baseProgress := 60\<close>, and the
  delay between two applicants, which is skipped after the last one.
\<close>

definition progressOf :: "nat \<Rightarrow> nat \<Rightarrow> int" where
  "progressOf i n = 60 + 35 * int i div int n"

definition evaluatingMsg :: "ApplicantDocument \<Rightarrow> nat \<Rightarrow> nat \<Rightarrow> string" where
  "evaluatingMsg doc i n =
     ''Evaluating '' @ Name doc @ '' ('' @ fmt_d (int i + 1) @ ''/'' @ fmt_d (int n) @ '')''"

definition retryMsg :: "ApplicantDocument \<Rightarrow> nat \<Rightarrow> string" where
  "retryMsg doc attempt =
     ''Rate limit - retrying '' @ Name doc @ '' (attempt '' @ fmt_d (int attempt + 1) @ ''/''
     @ fmt_d (int maxRetries) @ '')''"

definition delayEvents :: "nat \<Rightarrow> nat \<Rightarrow> event list" where
  "delayEvents i n =
     (if int i < int n - 1
      then [Progress (progressOf i n) 100 ''Rate limit delay before next applicant...'',
            Sleep requestDelay]
      else [])"

text \<open>
  The inner loop of \<^verbatim>\<open>processApplicants\<close>,
  \<^verbatim>\<open>for attempt := 0; attempt < maxRetries; attempt++\<close>. \<open>replies attempt\<close> is the reply of
  the remote model to the call of that attempt; \<open>cur\<close> holds the variables \<^verbatim>\<open>scores\<close> and
  \<^verbatim>\<open>err\<close>, which the loop leaves as they are when its condition fails.
\<close>

function scoreWithRetry ::
  "(string \<Rightarrow> err + ('n::plus) Scores) \<Rightarrow> (nat \<Rightarrow> err + part list list) \<Rightarrow> ApplicantDocument
     \<Rightarrow> int \<Rightarrow> nat \<Rightarrow> err + 'n Scores \<Rightarrow> (err + 'n Scores) \<times> event list" where
  "scoreWithRetry unmarshal replies doc progress attempt cur =
     (if attempt < maxRetries
      then
        (case ScoreApplicant unmarshal (replies attempt) of
           Inr scores \<Rightarrow> (Inr scores, [Evaluate (Name doc)])
         | Inl e \<Rightarrow>
             if isRateLimitError (Some e) \<and> attempt < maxRetries - 1
             then
               (case scoreWithRetry unmarshal replies doc progress (Suc attempt) (Inl e) of
                  (r, evs) \<Rightarrow>
                    (r, [Evaluate (Name doc), Progress progress 100 (retryMsg doc attempt),
                         Sleep retryBackoff] @ evs))
             else (Inl e, [Evaluate (Name doc)]))
      else (cur, []))"
  by pat_completeness auto
termination
  by (relation "measure (\<lambda>(u, r, d, p, attempt, c). maxRetries - attempt)") auto

declare scoreWithRetry.simps [simp del]

text \<open>
  The outer loop, \<^verbatim>\<open>for i, doc := range documents\<close>, from the index \<open>i\<close> with the
  documents still to come; \<open>n\<close> is \<^verbatim>\<open>len(documents)\<close>. \<open>llm i attempt\<close> is the reply of the
  remote model for the applicant \<open>i\<close> at that attempt. A result is appended only when the
  inner loop ended without error.
\<close>

definition newResult :: "ApplicantDocument \<Rightarrow> 'n Scores \<Rightarrow> 'n ApplicantResult" where
  "newResult doc scores =
     \<lparr>ResultName = Name doc, ResultScores = scores, Rank = 0, ResultCVPath = [],
      ResultCLPath = []\<rparr>"

fun evaluate_loop ::
  "(string \<Rightarrow> err + ('n::{plus,zero}) Scores) \<Rightarrow> (nat \<Rightarrow> nat \<Rightarrow> err + part list list)
     \<Rightarrow> cancel_ctx \<Rightarrow> nat \<Rightarrow> nat \<Rightarrow> ApplicantDocument list \<Rightarrow> 'n ApplicantResult list
     \<Rightarrow> (err + 'n ApplicantResult list) \<times> event list" where
  "evaluate_loop unmarshal llm ctx n i [] results = (Inr results, [])"
| "evaluate_loop unmarshal llm ctx n i (doc # docs) results =
     (if ctx (AtApplicant i) then (Inl Canceled, [])
      else
        case scoreWithRetry unmarshal (llm i) doc (progressOf i n) 0 (Inr zero_scores) of
          (r, evs) \<Rightarrow>
            let results' =
                  (case r of Inr scores \<Rightarrow> results @ [newResult doc scores] | Inl _ \<Rightarrow> results)
            in case evaluate_loop unmarshal llm ctx n (Suc i) docs results' of
                 (out, rest) \<Rightarrow>
                   (out,
                    [Progress (progressOf i n) 100 (evaluatingMsg doc i n)]
                    @ evs @ delayEvents i n @ rest))"

text \<open>
  \<^verbatim>\<open>sort.Slice\<close> belongs to Go's library. On short slices (up to twelve elements, as in
  the examples) it runs the insertion sort below: each element in turn moves to the left
  past its neighbour while the comparison \<open>lt\<close> (Go's \<^verbatim>\<open>less\<close>) holds for the pair. The
  accumulator of \<open>insert_left\<close> is the part already sorted, nearest neighbour first. The
  statements about lists of any length use of the sort only that it permutes the list.
\<close>

fun insert_left :: "('a \<Rightarrow> 'a \<Rightarrow> bool) \<Rightarrow> 'a \<Rightarrow> 'a list \<Rightarrow> 'a list" where
  "insert_left lt x [] = [x]"
| "insert_left lt x (y # ys) = (if lt x y then y # insert_left lt x ys else x # y # ys)"

definition sort_Slice :: "('a \<Rightarrow> 'a \<Rightarrow> bool) \<Rightarrow> 'a list \<Rightarrow> 'a list" where
  "sort_Slice lt xs = rev (foldl (\<lambda>acc x. insert_left lt x acc) [] xs)"

text \<open>The comparison given to \<^verbatim>\<open>sort.Slice\<close> in \<^verbatim>\<open>processApplicants\<close>.\<close>

definition byTotal :: "('n::linorder) ApplicantResult \<Rightarrow> 'n ApplicantResult \<Rightarrow> bool" where
  "byTotal x y = (TotalScore (ResultScores x) > TotalScore (ResultScores y))"

text \<open>The total of a result, \<^verbatim>\<open>r.Scores.TotalScore\<close>.\<close>

definition total :: "'n ApplicantResult \<Rightarrow> 'n" where
  "total r = TotalScore (ResultScores r)"

text \<open>The loop \<^verbatim>\<open>for i := range results { results[i].Rank = i + 1 }\<close>.\<close>

function assignRanks :: "nat \<Rightarrow> 'n ApplicantResult list \<Rightarrow> 'n ApplicantResult list" where
  "assignRanks i results =
     (if i < length results
      then assignRanks (Suc i) (results[i := (results ! i)\<lparr>Rank := int i + 1\<rparr>])
      else results)"
  by pat_completeness auto
termination
  by (relation "measure (\<lambda>(i, results). length results - i)") auto

declare assignRanks.simps [simp del]

definition rankResults :: "('n::linorder) ApplicantResult list \<Rightarrow> 'n ApplicantResult list" where
  "rankResults results = assignRanks 0 (sort_Slice byTotal results)"

text \<open>The state of the agent that the run writes: the job description and the results.\<close>

record 'n agent =
  jobDesc :: JobDescription
  results :: "'n ApplicantResult list"

text \<open>
  \<^verbatim>\<open>processApplicants\<close> (agent.go). It returns the error (\<open>None\<close> is \<^verbatim>\<open>nil\<close>), the agent
  and the events.
\<close>

definition processApplicants ::
  "(string \<Rightarrow> err + ('n::{plus,zero,linorder}) Scores) \<Rightarrow> (nat \<Rightarrow> nat \<Rightarrow> err + part list list)
     \<Rightarrow> cancel_ctx \<Rightarrow> ApplicantDocument list \<Rightarrow> 'n agent \<Rightarrow> err option \<times> 'n agent \<times> event list" where
  "processApplicants unmarshal llm ctx documents a =
     (case evaluate_loop unmarshal llm ctx (length documents) 0 documents [] of
        (Inl e, evs) \<Rightarrow> (Some e, a, evs)
      | (Inr rs, evs) \<Rightarrow>
          (None, a\<lparr>results := rankResults rs\<rparr>,
           evs @ [Progress 95 100 ''Ranking candidates...'',
                  Progress 100 100 ''Processing complete!'']))"

section \<open>The uploads directory\<close>

text \<open>
  \<^verbatim>\<open>LoadDocuments\<close> (ingestion/file_handler.go). The directory is what \<^verbatim>\<open>os.ReadDir\<close> finds:
  it does not exist, it cannot be read, or it has entries; an entry carries the result of
  \<^verbatim>\<open>os.ReadFile\<close> on it. The Go map from applicant names to documents is an association
  list in the order of insertion; Go ranges over a map in an unspecified order, of which this
  is one.
\<close>

record dir_entry =
  EntryName :: string
  IsDir :: bool
  Content :: "err + string"

datatype dir_listing = NotExist | ReadDirError err | Entries "dir_entry list"

definition newDocument :: "string \<Rightarrow> ApplicantDocument" where
  "newDocument applicantName =
     \<lparr>Name = applicantName, CVContent = [], CVPath = [], CLContent = [], CLPath = []\<rparr>"

definition ensure_applicant ::
  "string \<Rightarrow> (string \<times> ApplicantDocument) list \<Rightarrow> (string \<times> ApplicantDocument) list" where
  "ensure_applicant applicantName files =
     (if map_of files applicantName = None then files @ [(applicantName, newDocument applicantName)]
      else files)"

definition update_applicant ::
  "string \<Rightarrow> (ApplicantDocument \<Rightarrow> ApplicantDocument) \<Rightarrow> (string \<times> ApplicantDocument) list
     \<Rightarrow> (string \<times> ApplicantDocument) list" where
  "update_applicant applicantName f files =
     map (\<lambda>(k, d). if k = applicantName then (k, f d) else (k, d)) files"

fun load_entries ::
  "string \<Rightarrow> dir_entry list \<Rightarrow> (string \<times> ApplicantDocument) list
     \<Rightarrow> err + (string \<times> ApplicantDocument) list" where
  "load_entries uploadsDir [] applicantFiles = Inr applicantFiles"
| "load_entries uploadsDir (file # files) applicantFiles =
     (if IsDir file then load_entries uploadsDir files applicantFiles
      else
        let filename = EntryName file;
            ext = ToLower (Ext filename)
        in if ext \<noteq> ''.pdf'' \<and> ext \<noteq> ''.txt'' \<and> ext \<noteq> ''.doc'' \<and> ext \<noteq> ''.docx''
           then load_entries uploadsDir files applicantFiles
           else
             let baseName = TrimSuffix filename ext;
                 parts = Split baseName ''_''
             in if length parts < 2 then load_entries uploadsDir files applicantFiles
                else
                  let applicantName = hd parts;
                      docType = ToLower (Join (tl parts) ''_'');
                      applicantFiles = ensure_applicant applicantName applicantFiles;
                      filePath = uploadsDir @ ''/'' @ filename
                  in case Content file of
                       Inl e \<Rightarrow> Inl (Wrap (''failed to read file '' @ filename @ '': '') e [])
                     | Inr content \<Rightarrow>
                         if Contains docType ''cv'' \<or> Contains docType ''resume''
                         then load_entries uploadsDir files
                                (update_applicant applicantName
                                   (\<lambda>d. d\<lparr>CVContent := content, CVPath := filePath\<rparr>) applicantFiles)
                         else if Contains docType ''cover'' \<or> Contains docType ''letter''
                                 \<or> Contains docType ''cl''
                         then load_entries uploadsDir files
                                (update_applicant applicantName
                                   (\<lambda>d. d\<lparr>CLContent := content, CLPath := filePath\<rparr>) applicantFiles)
                         else load_entries uploadsDir files applicantFiles)"

definition LoadDocuments :: "string \<Rightarrow> dir_listing \<Rightarrow> err + ApplicantDocument list" where
  "LoadDocuments uploadsDir dir =
     (case dir of
        NotExist \<Rightarrow> Inr []
      | ReadDirError e \<Rightarrow> Inl (Wrap ''failed to read uploads directory: '' e [])
      | Entries files \<Rightarrow>
          (case load_entries uploadsDir files [] of
             Inl e \<Rightarrow> Inl e
           | Inr applicantFiles \<Rightarrow> Inr (filter (\<lambda>doc. CVContent doc \<noteq> []) (map snd applicantFiles))))"

text \<open>\<^verbatim>\<open>ClearUploads\<close>, from the results of \<^verbatim>\<open>os.RemoveAll\<close> and \<^verbatim>\<open>os.MkdirAll\<close>.\<close>

definition ClearUploads :: "err option \<Rightarrow> err option \<Rightarrow> err option" where
  "ClearUploads removed made =
     (case removed of
        Some e \<Rightarrow> Some (Wrap ''failed to clear uploads directory: '' e [])
      | None \<Rightarrow> made)"

section \<open>The fetch from the mailbox\<close>

text \<open>
  The mailbox as the handler sees it (ingestion/gmail_handler.go): the result of
  \<^verbatim>\<open>os.MkdirAll\<close>, the pages that the successive list calls return (a page with a next-page
  token is followed by another one), and the result of the get call for a message at a
  given attempt. A part of a message carries its file name and attachment id, the result of
  the attachment call, the result of decoding its data, and the result of writing the file.
\<close>

record attachment_part =
  Filename :: string
  AttachmentId :: string
  Download :: "err + string"
  Decoded :: "err + string"
  Written :: "err option"

record message =
  Headers :: "(string \<times> string) list"
  Parts :: "attachment_part list"

datatype pages = LastPage "string list" | NextPage "string list" pages | ListError err

record mailbox =
  MkdirAll :: "err option"
  Pages :: pages
  Get :: "string \<Rightarrow> nat \<Rightarrow> err + message"

fun extractSenderName :: "(string \<times> string) list \<Rightarrow> string" where
  "extractSenderName [] = ''Unknown''"
| "extractSenderName ((name, val) # headers) =
     (if name = ''From''
      then
        (let idx = Index val ''<'' in
         if idx > 0 then filter (\<lambda>c. c \<noteq> CHR '' '') (TrimSpace (take (nat idx) val))
         else
           let idx = Index val ''@'' in
           if idx > 0 then take (nat idx) val else ''Unknown'')
      else extractSenderName headers)"

definition newFilename :: "string \<Rightarrow> string \<Rightarrow> string" where
  "newFilename senderName filename =
     (let ext = Ext filename;
          baseName = TrimSuffix filename ext
      in if Contains (ToLower baseName) ''cv'' \<or> Contains (ToLower baseName) ''resume''
         then senderName @ ''_CV'' @ ext
         else if Contains (ToLower baseName) ''cover'' \<or> Contains (ToLower baseName) ''letter''
         then senderName @ ''_CoverLetter'' @ ext
         else senderName @ ''_'' @ filename)"

text \<open>
  The loop over the parts of a message. Its state is \<^verbatim>\<open>hasAttachments\<close> and \<^verbatim>\<open>lastErr\<close>;
  a failure of a part sets \<^verbatim>\<open>lastErr\<close> and goes on with the next part.
\<close>

fun process_parts ::
  "string \<Rightarrow> string \<Rightarrow> attachment_part list \<Rightarrow> bool \<Rightarrow> err option
     \<Rightarrow> bool \<times> err option \<times> event list" where
  "process_parts messageId senderName [] hasAttachments lastErr = (hasAttachments, lastErr, [])"
| "process_parts messageId senderName (p # ps) hasAttachments lastErr =
     (if Filename p \<noteq> [] \<and> AttachmentId p \<noteq> []
      then
        (let (lastErr', evs) =
               (case Download p of
                  Inl e \<Rightarrow> (Some (Wrap ''unable to retrieve attachment: '' e []), [])
                | Inr data \<Rightarrow>
                    (case Decoded p of
                       Inl e \<Rightarrow> (Some (Wrap ''unable to decode attachment: '' e []), [])
                     | Inr bytes \<Rightarrow>
                         (case Written p of
                            Some e \<Rightarrow> (Some (Wrap ''unable to write file: '' e []),
                                       [WriteFile (newFilename senderName (Filename p))])
                          | None \<Rightarrow> (lastErr, [WriteFile (newFilename senderName (Filename p))]))))
         in case process_parts messageId senderName ps True lastErr' of
              (h, l, rest) \<Rightarrow> (h, l, GetAttachment messageId (AttachmentId p) # evs @ rest))
      else process_parts messageId senderName ps hasAttachments lastErr)"

text \<open>
  \<^verbatim>\<open>processMessageWithRetry\<close>: the loop \<^verbatim>\<open>for attempt := 0; attempt <= retries; attempt++\<close>
  for the message \<open>i\<close> of the listing. The pause before a retry is
  \<^verbatim>\<open>time.Duration(attempt) * time.Second\<close>.
\<close>

function retry_loop ::
  "cancel_ctx \<Rightarrow> (string \<Rightarrow> nat \<Rightarrow> err + message) \<Rightarrow> nat \<Rightarrow> string \<Rightarrow> nat \<Rightarrow> nat \<Rightarrow> err option
     \<Rightarrow> err option \<times> event list" where
  "retry_loop ctx get i messageId retries attempt lastErr =
     (if attempt \<le> retries
      then
        if ctx (AtAttempt i attempt) then (Some Canceled, [])
        else
          let pause = (if attempt > 0 then [Sleep attempt] else []) in
          case get messageId attempt of
            Inl e \<Rightarrow>
              (case retry_loop ctx get i messageId retries (Suc attempt)
                      (Some (Wrap ''unable to retrieve message: '' e [])) of
                 (r, rest) \<Rightarrow> (r, pause @ [GetMessage messageId] @ rest))
          | Inr message \<Rightarrow>
              (case process_parts messageId (extractSenderName (Headers message)) (Parts message)
                      False lastErr of
                 (hasAttachments, lastErr', evs) \<Rightarrow>
                   if hasAttachments then (None, pause @ [GetMessage messageId] @ evs)
                   else
                     (case retry_loop ctx get i messageId retries (Suc attempt) lastErr' of
                        (r, rest) \<Rightarrow> (r, pause @ [GetMessage messageId] @ evs @ rest)))
      else (lastErr, []))"
  by pat_completeness auto
termination
  by (relation "measure (\<lambda>(c, g, i, m, retries, attempt, l). Suc retries - attempt)") auto

declare retry_loop.simps [simp del]

definition processMessageWithRetry ::
  "cancel_ctx \<Rightarrow> (string \<Rightarrow> nat \<Rightarrow> err + message) \<Rightarrow> nat \<Rightarrow> string \<Rightarrow> nat
     \<Rightarrow> err option \<times> event list" where
  "processMessageWithRetry ctx get i messageId retries =
     retry_loop ctx get i messageId retries 0 None"

text \<open>The listing loop of \<^verbatim>\<open>FetchAttachmentsWithContext\<close>, from the page \<open>k\<close>.\<close>

fun list_pages ::
  "cancel_ctx \<Rightarrow> nat \<Rightarrow> pages \<Rightarrow> string list \<Rightarrow> (err + string list) \<times> event list" where
  "list_pages ctx k ps allMessages =
     (if ctx (AtPage k) then (Inl Canceled, [])
      else
        case ps of
          ListError e \<Rightarrow> (Inl (Wrap ''unable to retrieve messages: '' e []), [ListMessages])
        | LastPage ms \<Rightarrow> (Inr (allMessages @ ms), [ListMessages])
        | NextPage ms rest \<Rightarrow>
            (case list_pages ctx (Suc k) rest (allMessages @ ms) of
               (r, evs) \<Rightarrow>
                 (r, [ListMessages,
                      Progress (int (length (allMessages @ ms)) * 20 div 100) 100
                        (''Listed '' @ fmt_d (int (length (allMessages @ ms))) @ '' emails...'')]
                     @ evs)))"

text \<open>The loop over the listed messages, from the message \<open>i\<close>; \<open>n\<close> is their number.\<close>

fun process_messages ::
  "cancel_ctx \<Rightarrow> (string \<Rightarrow> nat \<Rightarrow> err + message) \<Rightarrow> nat \<Rightarrow> nat \<Rightarrow> string list \<Rightarrow> nat
     \<Rightarrow> (err + nat) \<times> event list" where
  "process_messages ctx get n i [] downloadedCount = (Inr downloadedCount, [])"
| "process_messages ctx get n i (msgId # msgs) downloadedCount =
     (if ctx (AtItem i) then (Inl Canceled, [])
      else
        let progress = 20 + 80 * int i div int n;
            report = Progress progress 100
                       (''Processing email '' @ fmt_d (int i + 1) @ ''/'' @ fmt_d (int n))
        in case processMessageWithRetry ctx get i msgId 3 of
             (r, evs) \<Rightarrow>
               (case process_messages ctx get n (Suc i) msgs
                       (case r of Some e \<Rightarrow> downloadedCount | None \<Rightarrow> downloadedCount + 1) of
                  (out, rest) \<Rightarrow> (out, report # evs @ rest)))"

definition FetchAttachmentsWithContext ::
  "cancel_ctx \<Rightarrow> mailbox \<Rightarrow> string \<Rightarrow> err option \<times> event list" where
  "FetchAttachmentsWithContext ctx mb subject =
     (case MkdirAll mb of
        Some e \<Rightarrow> (Some (Wrap ''failed to create uploads directory: '' e []), [])
      | None \<Rightarrow>
          (case list_pages ctx 0 (Pages mb) [] of
             (Inl e, evs) \<Rightarrow> (Some e, Progress 0 100 ''Listing emails...'' # evs)
           | (Inr allMessages, evs) \<Rightarrow>
               if length allMessages = 0
               then (Some (Msg (''no messages found with subject: '' @ subject)),
                     Progress 0 100 ''Listing emails...'' # evs)
               else
                 let listed = Progress 0 100 ''Listing emails...'' # evs
                       @ [Progress 20 100
                            (''Processing '' @ fmt_d (int (length allMessages)) @ '' emails...'')]
                 in case process_messages ctx (Get mb) (length allMessages) 0 allMessages 0 of
                      (Inl e, evs2) \<Rightarrow> (Some e, listed @ evs2)
                    | (Inr downloadedCount, evs2) \<Rightarrow>
                        (None,
                         listed @ evs2
                         @ [Progress 100 100
                              (''Downloaded '' @ fmt_d (int downloadedCount) @ '' attachments'')])))"

section \<open>The runs of the agent\<close>

text \<open>
  What a run finds outside the agent: the result of decoding the job description (the error
  and the value that \<^verbatim>\<open>a.jobDesc\<close> holds afterwards), of creating the mail handler, of
  \<^verbatim>\<open>os.RemoveAll\<close> and \<^verbatim>\<open>os.MkdirAll\<close> in \<^verbatim>\<open>ClearUploads\<close>, the mailbox, the result of creating
  the client of the remote model, the uploads directory when the documents are loaded, the
  replies of the remote model, and the context.
\<close>

record world =
  ParseJob :: "err option \<times> JobDescription"
  NewGmailHandler :: "err option"
  RemoveAll :: "err option"
  MkdirAllUploads :: "err option"
  Mail :: mailbox
  NewVertexAIClient :: "err option"
  Dir :: dir_listing
  LLM :: "nat \<Rightarrow> nat \<Rightarrow> err + part list list"
  Ctx :: cancel_ctx

text \<open>
  The callback that \<^verbatim>\<open>IngestFromGmailWithContext\<close> gives to the mail handler:
  \<^verbatim>\<open>progress := 40 * current / total; a.reportProgress(progress, 100, message)\<close>.
\<close>

fun gmailProgress :: "event \<Rightarrow> event" where
  "gmailProgress (Progress current tot message) = Progress (40 * current div tot) 100 message"
| "gmailProgress ev = ev"

definition IngestFromUploadWithContext ::
  "(string \<Rightarrow> err + ('n::{plus,zero,linorder}) Scores) \<Rightarrow> world \<Rightarrow> 'n agent
     \<Rightarrow> err option \<times> 'n agent \<times> event list" where
  "IngestFromUploadWithContext unmarshal w a =
     (let a = a\<lparr>jobDesc := snd (ParseJob w)\<rparr> in
      case fst (ParseJob w) of
        Some e \<Rightarrow> (Some (Wrap ''failed to parse job description: '' e []), a, [])
      | None \<Rightarrow>
          let evs = [Progress 0 100 ''Initializing LLM client...''] in
          (case NewVertexAIClient w of
             Some e \<Rightarrow> (Some (Wrap ''failed to initialize LLM client: '' e []), a, evs)
           | None \<Rightarrow>
               let evs = evs @ [Progress 10 100 ''Loading documents...''] in
               (case LoadDocuments ''uploads'' (Dir w) of
                  Inl e \<Rightarrow> (Some (Wrap ''failed to load documents: '' e []), a, evs)
                | Inr documents \<Rightarrow>
                    if length documents = 0
                    then (Some (Msg ''no documents found in uploads directory''), a, evs)
                    else
                      let evs = evs @ [Progress 20 100
                                 (''Processing '' @ fmt_d (int (length documents))
                                  @ '' applicants...'')]
                      in case processApplicants unmarshal (LLM w) (Ctx w) documents a of
                           (r, a', evs2) \<Rightarrow> (r, a', evs @ evs2))))"

definition IngestFromGmailWithContext ::
  "(string \<Rightarrow> err + ('n::{plus,zero,linorder}) Scores) \<Rightarrow> world \<Rightarrow> string \<Rightarrow> 'n agent
     \<Rightarrow> err option \<times> 'n agent \<times> event list" where
  "IngestFromGmailWithContext unmarshal w subject a =
     (let a = a\<lparr>jobDesc := snd (ParseJob w)\<rparr> in
      case fst (ParseJob w) of
        Some e \<Rightarrow> (Some (Wrap ''failed to parse job description: '' e []), a, [])
      | None \<Rightarrow>
          let evs = [Progress 0 100 ''Initializing Gmail handler...''] in
          (case NewGmailHandler w of
             Some e \<Rightarrow> (Some (Wrap ''failed to initialize Gmail handler: '' e []), a, evs)
           | None \<Rightarrow>
               let evs = evs @ [Progress 5 100 ''Clearing existing uploads...''] in
               (case ClearUploads (RemoveAll w) (MkdirAllUploads w) of
                  Some e \<Rightarrow> (Some (Wrap ''failed to clear uploads: '' e []), a, evs)
                | None \<Rightarrow>
                    let evs = evs @ [Progress 10 100 ''Fetching emails from Gmail...''] in
                    (case FetchAttachmentsWithContext (Ctx w) (Mail w) subject of
                       (Some e, fetched) \<Rightarrow>
                         (Some (Wrap ''failed to fetch Gmail attachments: '' e []), a,
                          evs @ map gmailProgress fetched)
                     | (None, fetched) \<Rightarrow>
                         let evs = evs @ map gmailProgress fetched
                               @ [Progress 40 100 ''Initializing LLM client...'']
                         in
                         (case NewVertexAIClient w of
                            Some e \<Rightarrow>
                              (Some (Wrap ''failed to initialize LLM client: '' e []), a, evs)
                          | None \<Rightarrow>
                              let evs = evs @ [Progress 50 100 ''Loading documents...''] in
                              (case LoadDocuments ''uploads'' (Dir w) of
                                 Inl e \<Rightarrow>
                                   (Some (Wrap ''failed to load documents: '' e []), a, evs)
                               | Inr documents \<Rightarrow>
                                   if length documents = 0
                                   then (Some (Msg ''no documents found after Gmail fetch''), a,
                                         evs)
                                   else
                                     let evs = evs @ [Progress 60 100
                                                (''Processing '' @ fmt_d (int (length documents))
                                                 @ '' applicants...'')]
                                     in case processApplicants unmarshal (LLM w) (Ctx w)
                                               documents a of
                                          (r, a', evs2) \<Rightarrow> (r, a', evs @ evs2)))))))"

text \<open>
  The caller in the window (gui/app.go) tells a cancelled run from a failed one by the
  comparison \<^verbatim>\<open>err == context.Canceled\<close>; this is the text it puts on the progress label
  when the run returns an error.
\<close>

definition progressLabel :: "err \<Rightarrow> string" where
  "progressLabel e = (if e = Canceled then ''Processing canceled'' else ''Error: '' @ Error e)"

text \<open>The percentages that the progress callback receives during a run, in order.\<close>

fun percentages :: "event list \<Rightarrow> int list" where
  "percentages [] = []"
| "percentages (Progress current tot message # evs) = (100 * current div tot) # percentages evs"
| "percentages (ev # evs) = percentages evs"

subsection \<open>Examples\<close>

text \<open>
  Two results with the same total, experience and duties, as in the fourth case of
  \<^verbatim>\<open>TestSortingWithTieBreaking\<close> (agent_test.go).
\<close>

definition alice :: "int ApplicantResult" where
  "alice = \<lparr>ResultName = ''Alice'',
     ResultScores = zero_scores\<lparr>TotalScore := 80, ExperienceScore := 40, DutiesScore := 15,
       EducationScore := 12\<rparr>,
     Rank = 0, ResultCVPath = [], ResultCLPath = []\<rparr>"

definition bob :: "int ApplicantResult" where
  "bob = \<lparr>ResultName = ''Bob'',
     ResultScores = zero_scores\<lparr>TotalScore := 80, ExperienceScore := 40, DutiesScore := 15,
       EducationScore := 18\<rparr>,
     Rank = 0, ResultCVPath = [], ResultCLPath = []\<rparr>"

text \<open>
  Four applicants and a remote model that answers every call for the first with a
  rate-limit error, every call for the second with another error, the calls for the third
  with a rate-limit error and then another error, and the calls for the fourth with a
  rate-limit error and then the record of the examples; a context that is never done.
\<close>

definition ann :: ApplicantDocument where
  "ann = \<lparr>Name = ''Ann'', CVContent = ''cv of Ann'', CVPath = ''uploads/Ann_CV.txt'',
           CLContent = [], CLPath = []\<rparr>"

definition ben :: ApplicantDocument where
  "ben = \<lparr>Name = ''Ben'', CVContent = ''cv of Ben'', CVPath = ''uploads/Ben_CV.txt'',
           CLContent = [], CLPath = []\<rparr>"

definition cy :: ApplicantDocument where
  "cy = \<lparr>Name = ''Cy'', CVContent = ''cv of Cy'', CVPath = ''uploads/Cy_CV.txt'',
          CLContent = [], CLPath = []\<rparr>"

definition dee :: ApplicantDocument where
  "dee = \<lparr>Name = ''Dee'', CVContent = ''cv of Dee'', CVPath = ''uploads/Dee_CV.txt'',
           CLContent = [], CLPath = []\<rparr>"

definition busy_llm :: "nat \<Rightarrow> nat \<Rightarrow> err + part list list" where
  "busy_llm i attempt =
     (if i = 0 \<or> (2 \<le> i \<and> attempt = 0)
      then Inl (Msg ''rpc error: code = ResourceExhausted desc = Resource exhausted'')
      else if i = 1 \<or> i = 2 then Inl (Msg ''connection timeout'')
      else Inr [ [Text example_record] ])"

definition never_done :: cancel_ctx where
  "never_done c = False"

definition exhausted :: err where
  "exhausted = Wrap ''failed to get LLM response: ''
     (Wrap ''failed to generate content: ''
        (Msg ''rpc error: code = ResourceExhausted desc = Resource exhausted'') []) []"

definition timed_out :: err where
  "timed_out = Wrap ''failed to get LLM response: ''
     (Wrap ''failed to generate content: '' (Msg ''connection timeout'') []) []"

definition example_job :: JobDescription where
  "example_job =
     \<lparr>Title = ''Backend Engineer'', RequiredExperience = [''3+ years of Go''],
      RequiredEducation = [''BSc''], RequiredDuties = [''Build services''],
      NiceToHaveExperience = [], NiceToHaveEducation = [], NiceToHaveDuties = [],
      Description = ''Backend work''\<rparr>"

definition new_agent :: "int agent" where
  "new_agent = \<lparr>jobDesc = example_job, results = []\<rparr>"

text \<open>
  A mailbox with one message from Ann Lee, whose attachment is her CV; the world of a run
  in which every step succeeds; a mailbox whose first message cannot be retrieved; a mailbox
  with three pages of a hundred messages; and the context that is done at one check only.
\<close>

definition ann_message :: message where
  "ann_message =
     \<lparr>Headers = [(''Subject'', ''Application''), (''From'', ''Ann Lee <ann@example.com>'')],
      Parts = [\<lparr>Filename = ''resume.txt'', AttachmentId = ''att1'', Download = Inr ''Y3Y='',
                Decoded = Inr ''cv'', Written = None\<rparr>]\<rparr>"

definition one_mail :: mailbox where
  "one_mail = \<lparr>MkdirAll = None, Pages = LastPage [''m1''], Get = (\<lambda>messageId attempt. Inr ann_message)\<rparr>"

definition example_world :: world where
  "example_world =
     \<lparr>ParseJob = (None, example_job), NewGmailHandler = None, RemoveAll = None,
      MkdirAllUploads = None, Mail = one_mail, NewVertexAIClient = None,
      Dir = Entries [\<lparr>EntryName = ''AnnLee_CV.txt'', IsDir = False, Content = Inr ''cv''\<rparr>],
      LLM = (\<lambda>i attempt. Inr [ [Text example_record] ]), Ctx = never_done\<rparr>"

definition failing_get :: "string \<Rightarrow> nat \<Rightarrow> err + message" where
  "failing_get messageId attempt =
     (if messageId = ''m0'' then Inl (Msg ''googleapi: Error 500'') else Inr ann_message)"

definition two_mails :: mailbox where
  "two_mails = \<lparr>MkdirAll = None, Pages = LastPage [''m0'', ''m1''], Get = failing_get\<rparr>"

definition three_pages :: mailbox where
  "three_pages =
     \<lparr>MkdirAll = None,
      Pages = NextPage (replicate 100 ''m1'')
                (NextPage (replicate 100 ''m1'') (LastPage (replicate 100 ''m1''))),
      Get = (\<lambda>messageId attempt. Inr ann_message)\<rparr>"

definition done_at :: "checkpoint \<Rightarrow> cancel_ctx" where
  "done_at c = (\<lambda>c'. c' = c)"

section \<open>Properties of condensing\<close>

lemma Join_snoc:
  "xs \<noteq> [] \<Longrightarrow> Join (xs @ [x]) sep = Join xs sep @ sep @ x"
  by (induction xs sep rule: Join.induct) auto

lemma condense_loop_Join:
  "cnt \<le> int (length items) \<Longrightarrow> int i \<le> cnt \<or> i = 0 \<Longrightarrow>
   condense_loop items i cnt (pre @ Join (take i items) ''; '')
     = pre @ Join (take (nat cnt) items) ''; ''"
proof (induction items i cnt "pre @ Join (take i items) ''; ''" rule: condense_loop.induct)
  case (1 items i cnt)
  show ?case
  proof (cases "int i < cnt")
    case False
    with 1(3) have "take (nat cnt) items = take i items"
      by (cases "i = 0") auto
    with False show ?thesis
      by (subst condense_loop.simps) simp
  next
    case True
    with 1(2) have lt: "i < length items" by linarith
    have step: "(if i > 0 then (pre @ Join (take i items) ''; '') @ ''; ''
                 else pre @ Join (take i items) ''; '') @ items ! i
               = pre @ Join (take (Suc i) items) ''; ''"
    proof (cases "i = 0")
      case True
      with lt show ?thesis by (cases items) auto
    next
      case False
      with lt have "take i items \<noteq> []" by auto
      then show ?thesis
        using lt False by (simp add: take_Suc_conv_app_nth Join_snoc)
    qed
    have "condense_loop items (Suc i) cnt (pre @ Join (take (Suc i) items) ''; '')
            = pre @ Join (take (nat cnt) items) ''; ''"
      using 1(1)[OF True] step 1(2) True by auto
    with True step show ?thesis
      by (subst condense_loop.simps) simp
  qed
qed

text \<open>
  C8. A non-empty requirement list condensed to \<open>N\<close> items gives the category label, then
  the first \<open>N\<close> items of the list in their order (all of them when there are at most \<open>N\<close>)
  separated by \<open>"; "\<close>, then the suffix \<open>" (+K more)"\<close> exactly when
  \<open>K = length - N\<close> is positive, then a line feed.
\<close>

theorem condenseRequirements_first_items:
  assumes "items \<noteq> []"
  shows "condenseRequirements category items N =
           category @ '': '' @ Join (take (nat N) items) ''; ''
           @ (if int (length items) - N > 0
              then '' (+'' @ fmt_d (int (length items) - N) @ '' more)'' else '''')
           @ [CHR 0x0A]"
proof -
  let ?cnt = "if int (length items) > N then N else int (length items)"
  have "condense_loop items 0 ?cnt ((category @ '': '') @ Join (take 0 items) ''; '')
          = (category @ '': '') @ Join (take (nat ?cnt) items) ''; ''"
    by (rule condense_loop_Join) auto
  moreover have "take (nat ?cnt) items = take (nat N) items"
    by auto
  ultimately have loop: "condense_loop items 0 ?cnt (category @ '': '')
          = category @ '': '' @ Join (take (nat N) items) ''; ''"
    by simp
  show ?thesis
  proof (cases "int (length items) > N")
    case True
    with assms loop show ?thesis
      by (simp add: condenseRequirements_def Let_def)
  next
    case False
    with assms loop show ?thesis
      by (simp add: condenseRequirements_def Let_def)
  qed
qed

theorem condenseRequirements_first_items_witness:
  "[''Go'', ''SQL'', ''Docker'', ''AWS'', ''Linux''] \<noteq> []
   \<and> condenseRequirements ''Experience'' [''Go'', ''SQL'', ''Docker'', ''AWS'', ''Linux''] 3
       = ''Experience: Go; SQL; Docker (+2 more)'' @ [CHR 0x0A]
   \<and> condenseRequirements ''Education'' [''BSc'', ''MSc''] 3 = ''Education: BSc; MSc'' @ [CHR 0x0A]"
  using condenseRequirements_first_items
          [of "[''Go'', ''SQL'', ''Docker'', ''AWS'', ''Linux'']" "''Experience''" 3]
        condenseRequirements_first_items [of "[''BSc'', ''MSc'']" "''Education''" 3]
  by (simp add: fmt_d_def decimal.simps digit_def)

section \<open>Properties of the decoding of scores\<close>

lemma record_text_split:
  assumes "record_text R"
  obtains mid where "R = CHR ''{'' # mid @ ''}''"
proof -
  from assms have len: "2 \<le> length R" and h: "hd R = CHR ''{''" and l: "last R = CHR ''}''"
    by (auto simp: record_text_def)
  from len obtain a t where R: "R = a # t" and t: "t \<noteq> []"
    by (cases R) (auto simp: Suc_le_length_iff)
  from R l t have lt: "last t = CHR ''}''" by simp
  from t have "t = butlast t @ [last t]" by simp
  with lt have "t = butlast t @ ''}''" by simp
  with R h have "R = CHR ''{'' # butlast t @ ''}''" by simp
  then show thesis by (rule that)
qed

lemma HasPrefix_append [simp]: "HasPrefix (p @ ys) p"
  by (simp add: HasPrefix_def)

lemma HasSuffix_append [simp]: "HasSuffix (ys @ p) p"
  by (simp add: HasSuffix_def)

lemma HasPrefix_hd: "HasPrefix s p \<Longrightarrow> p \<noteq> [] \<Longrightarrow> s \<noteq> [] \<and> hd s = hd p"
  by (cases s; cases p) (auto simp: HasPrefix_def)

lemma HasSuffix_last: "HasSuffix s p \<Longrightarrow> p \<noteq> [] \<Longrightarrow> s \<noteq> [] \<and> last s = last p"
proof -
  assume a: "HasSuffix s p" and p: "p \<noteq> []"
  then have d: "drop (length s - length p) s = p" and le: "length p \<le> length s"
    by (auto simp: HasSuffix_def)
  from p le have s: "s \<noteq> []" by auto
  from d p have "last (drop (length s - length p) s) = last p" by simp
  moreover from p le s have "length s - length p < length s" by (cases p) auto
  ultimately show ?thesis using s by (simp add: last_drop)
qed

lemma Contains_HasPrefix: "HasPrefix s p \<Longrightarrow> Contains s p"
  by (cases s) (auto simp: HasPrefix_def)

lemma Contains_append: "Contains (xs @ p @ ys) p"
proof (induction xs)
  case Nil
  show ?case by (rule Contains_HasPrefix) simp
next
  case (Cons x xs)
  then show ?case by simp
qed

lemma TrimSpace_strip:
  assumes "xs \<noteq> []" "\<not> isSpace (hd xs)" "\<not> isSpace (last xs)"
    and "list_all isSpace w0" "list_all isSpace w3"
  shows "TrimSpace (w0 @ xs @ w3) = xs"
proof -
  from assms(1) obtain a t where xs: "xs = a # t" by (cases xs) auto
  with assms(2) have a: "\<not> isSpace a" by simp
  from assms(4) have "dropWhile isSpace (w0 @ xs @ w3) = dropWhile isSpace (xs @ w3)"
    by (simp add: list_all_iff)
  with xs a have 1: "dropWhile isSpace (w0 @ xs @ w3) = xs @ w3" by simp
  from assms(1) obtain b u where ru: "rev xs = b # u" by (cases "rev xs") auto
  with assms(1) have "b = last xs" by (metis hd_rev list.sel(1))
  with assms(3) have "dropWhile isSpace (b # u) = b # u" by simp
  then have "dropWhile isSpace (rev xs) = rev xs" unfolding ru .
  moreover from assms(5) have "dropWhile isSpace (rev w3 @ rev xs) = dropWhile isSpace (rev xs)"
    by (intro dropWhile_append2) (simp add: list_all_iff)
  ultimately have 2: "dropWhile isSpace (rev w3 @ rev xs) = rev xs" by simp
  show ?thesis by (simp add: TrimSpace_def 1 2)
qed

lemma Index_brace:
  "CHR ''{'' \<notin> set pre \<Longrightarrow> Index (pre @ CHR ''{'' # rest) ''{'' = int (length pre)"
  by (induction pre) (auto simp: HasPrefix_def Let_def)

lemma LastIndex_none: "CHR ''}'' \<notin> set post \<Longrightarrow> LastIndex post ''}'' = -1"
  by (induction post) (auto simp: HasPrefix_def Let_def)

lemma LastIndex_brace:
  "CHR ''}'' \<notin> set post \<Longrightarrow> LastIndex (xs @ CHR ''}'' # post) ''}'' = int (length xs)"
  by (induction xs) (auto simp: HasPrefix_def Let_def LastIndex_none)

lemma TrimSpace_framed:
  assumes "\<not> isSpace a" "\<not> isSpace b"
  shows "\<exists>pre' post'. TrimSpace (pre @ a # mid @ b # post) = pre' @ a # mid @ b # post'
           \<and> set pre' \<subseteq> set pre \<and> set post' \<subseteq> set post"
proof -
  let ?pre = "dropWhile isSpace pre"
  let ?post = "rev (dropWhile isSpace (rev post))"
  have 1: "dropWhile isSpace (pre @ a # mid @ b # post) = ?pre @ a # mid @ b # post"
    using assms(1) by (simp add: dropWhile_append3)
  have r: "rev (?pre @ a # mid @ b # post) = rev post @ b # (rev mid @ a # rev ?pre)"
    by simp
  have 2: "dropWhile isSpace (rev (?pre @ a # mid @ b # post))
          = dropWhile isSpace (rev post) @ b # (rev mid @ a # rev ?pre)"
    unfolding r using assms(2) by (rule dropWhile_append3)
  have "TrimSpace (pre @ a # mid @ b # post) = ?pre @ a # mid @ b # ?post"
    unfolding TrimSpace_def 1 2 by simp
  moreover have "set ?pre \<subseteq> set pre" by (auto dest: set_dropWhileD)
  moreover have "set ?post \<subseteq> set post" by (auto dest: set_dropWhileD)
  ultimately show ?thesis by blast
qed

lemma TrimPrefix_framed:
  assumes "a \<notin> set p"
  shows "\<exists>pre'. TrimPrefix (pre @ a # rest) p = pre' @ a # rest \<and> set pre' \<subseteq> set pre"
proof (cases "HasPrefix (pre @ a # rest) p")
  case False
  then show ?thesis by (auto simp: TrimPrefix_def)
next
  case True
  then have t: "take (length p) (pre @ a # rest) = p" by (simp add: HasPrefix_def)
  have le: "length p \<le> length pre"
  proof (rule ccontr)
    assume "\<not> length p \<le> length pre"
    then have "length pre < length p" by simp
    then obtain k where "length p - length pre = Suc k"
      by (cases "length p - length pre") auto
    then have "take (length p) (pre @ a # rest) = pre @ a # take k rest"
      by simp
    with t have "a \<in> set p" by (metis in_set_conv_decomp)
    with assms show False by simp
  qed
  then have "drop (length p) (pre @ a # rest) = drop (length p) pre @ a # rest" by simp
  moreover have "set (drop (length p) pre) \<subseteq> set pre" by (rule set_drop_subset)
  ultimately show ?thesis using True by (auto simp: TrimPrefix_def)
qed

lemma TrimSuffix_framed:
  assumes "b \<notin> set p"
  shows "\<exists>post'. TrimSuffix (front @ b # post) p = front @ b # post' \<and> set post' \<subseteq> set post"
proof (cases "HasSuffix (front @ b # post) p")
  case False
  then show ?thesis by (auto simp: TrimSuffix_def)
next
  case True
  let ?x = "front @ b # post"
  from True have d: "drop (length ?x - length p) ?x = p" and l: "length p \<le> length ?x"
    by (auto simp: HasSuffix_def)
  have le: "length p \<le> length post"
  proof (rule ccontr)
    assume "\<not> length p \<le> length post"
    then have "length ?x - length p \<le> length front" by simp
    then have "drop (length ?x - length p) ?x = drop (length ?x - length p) front @ b # post"
      by simp
    with d have "b \<in> set p" by (metis in_set_conv_decomp)
    with assms show False by simp
  qed
  then have "take (length ?x - length p) ?x = front @ b # take (length post - length p) post"
    by (simp add: Suc_diff_le)
  moreover have "set (take (length post - length p) post) \<subseteq> set post" by (rule set_take_subset)
  ultimately show ?thesis using True by (auto simp: TrimSuffix_def)
qed

lemma cleanResponse_framed:
  assumes "CHR ''{'' \<notin> set pre" "CHR ''}'' \<notin> set post"
  shows "\<exists>pre' post'. cleanResponse (pre @ CHR ''{'' # mid @ CHR ''}'' # post)
            = pre' @ CHR ''{'' # mid @ CHR ''}'' # post'
          \<and> CHR ''{'' \<notin> set pre' \<and> CHR ''}'' \<notin> set post'"
proof (cases "Contains (pre @ CHR ''{'' # mid @ CHR ''}'' # post) ''```json''")
  case False
  with assms show ?thesis unfolding cleanResponse_def by auto
next
  case True
  have sp: "\<not> isSpace (CHR ''{'')" "\<not> isSpace (CHR ''}'')" by (simp_all add: isSpace_def)
  obtain p1 q1 where 1: "TrimSpace (pre @ CHR ''{'' # mid @ CHR ''}'' # post)
        = p1 @ CHR ''{'' # mid @ CHR ''}'' # q1" and p1: "set p1 \<subseteq> set pre" and q1: "set q1 \<subseteq> set post"
    using TrimSpace_framed[OF sp] by blast
  let ?c1 = "p1 @ CHR ''{'' # mid @ CHR ''}'' # q1"
  let ?c2 = "if HasPrefix ?c1 ''```json'' then TrimPrefix ?c1 ''```json'' else TrimPrefix ?c1 ''```''"
  obtain p2 where 2: "?c2 = p2 @ CHR ''{'' # mid @ CHR ''}'' # q1" and p2: "set p2 \<subseteq> set p1"
  proof (cases "HasPrefix ?c1 ''```json''")
    case True
    have "CHR ''{'' \<notin> set ''```json''" by simp
    from TrimPrefix_framed[OF this, of p1 "mid @ CHR ''}'' # q1"] True that show thesis by auto
  next
    case False
    have "CHR ''{'' \<notin> set ''```''" by simp
    from TrimPrefix_framed[OF this, of p1 "mid @ CHR ''}'' # q1"] False that show thesis by auto
  qed
  have "CHR ''}'' \<notin> set ''```''" by simp
  from TrimSuffix_framed[OF this, of "p2 @ CHR ''{'' # mid" q1]
  obtain q3 where 3: "TrimSuffix (p2 @ CHR ''{'' # mid @ CHR ''}'' # q1) ''```''
        = p2 @ CHR ''{'' # mid @ CHR ''}'' # q3" and q3: "set q3 \<subseteq> set q1"
    by auto
  obtain p4 q4 where 4: "TrimSpace (p2 @ CHR ''{'' # mid @ CHR ''}'' # q3)
        = p4 @ CHR ''{'' # mid @ CHR ''}'' # q4" and p4: "set p4 \<subseteq> set p2" and q4: "set q4 \<subseteq> set q3"
    using TrimSpace_framed[OF sp] by blast
  have "cleanResponse (pre @ CHR ''{'' # mid @ CHR ''}'' # post) = p4 @ CHR ''{'' # mid @ CHR ''}'' # q4"
    unfolding cleanResponse_def using True by (simp only: if_True Let_def 1 2 3 4)
  moreover have "CHR ''{'' \<notin> set p4" using p4 p2 p1 assms(1) by blast
  moreover have "CHR ''}'' \<notin> set q4" using q4 q3 q1 assms(2) by blast
  ultimately show ?thesis by blast
qed

lemma extract_framed:
  fixes pre mid post :: string
  assumes "CHR ''{'' \<notin> set pre" "CHR ''}'' \<notin> set post"
  defines "x \<equiv> pre @ CHR ''{'' # mid @ CHR ''}'' # post"
  shows "Index x ''{'' = int (length pre)"
    and "LastIndex x ''}'' = int (length pre) + 1 + int (length mid)"
    and "slice x (Index x ''{'') (LastIndex x ''}'' + 1) = CHR ''{'' # mid @ ''}''"
proof -
  show 1: "Index x ''{'' = int (length pre)"
    unfolding x_def using assms(1) by (rule Index_brace)
  have "x = (pre @ CHR ''{'' # mid) @ CHR ''}'' # post" by (simp add: x_def)
  then have "LastIndex x ''}'' = int (length (pre @ CHR ''{'' # mid))"
    using LastIndex_brace[OF assms(2), of "pre @ CHR ''{'' # mid"] by simp
  then show 2: "LastIndex x ''}'' = int (length pre) + 1 + int (length mid)" by simp
  have n: "nat (int (length pre) + 1 + int (length mid) + 1 - int (length pre))
             = Suc (Suc (length mid))"
    by simp
  show "slice x (Index x ''{'') (LastIndex x ''}'' + 1) = CHR ''{'' # mid @ ''}''"
    unfolding 1 2 slice_def n by (simp add: x_def)
qed

lemma TrimPrefix_append [simp]: "TrimPrefix (p @ ys) p = ys"
  by (simp add: TrimPrefix_def)

lemma TrimSuffix_append [simp]: "TrimSuffix (ys @ p) p = ys"
  by (simp add: TrimSuffix_def)

lemma TrimSpace_record:
  assumes "record_text R" "list_all isSpace w1" "list_all isSpace w2"
  shows "TrimSpace (w1 @ R @ w2) = R"
proof (rule TrimSpace_strip)
  from assms(1) show "R \<noteq> []" by (auto simp: record_text_def)
  from assms(1) show "\<not> isSpace (hd R)" by (simp add: record_text_def isSpace_def)
  from assms(1) show "\<not> isSpace (last R)" by (simp add: record_text_def isSpace_def)
qed (rule assms)+

lemma cleanResponse_record:
  assumes "record_text R"
  shows "cleanResponse R = R"
proof (cases "Contains R ''```json''")
  case False
  then show ?thesis by (simp add: cleanResponse_def)
next
  case True
  from assms have ne: "R \<noteq> []" and h: "hd R = CHR ''{''" and l: "last R = CHR ''}''"
    by (auto simp: record_text_def)
  have 1: "TrimSpace R = R"
    using TrimSpace_record[OF assms, of "[]" "[]"] by simp
  have 2: "\<not> HasPrefix R ''```json''"
    using HasPrefix_hd[of R "''```json''"] h by auto
  have 3: "TrimPrefix R ''```'' = R"
    using HasPrefix_hd[of R "''```''"] h by (auto simp: TrimPrefix_def)
  have 4: "TrimSuffix R ''```'' = R"
    using HasSuffix_last[of R "''```''"] l by (auto simp: TrimSuffix_def)
  show ?thesis
    unfolding cleanResponse_def using True by (simp add: Let_def 1 2 3 4)
qed

lemma cleanResponse_fenced:
  assumes "record_text R"
    and "list_all isSpace w0" "list_all isSpace w1" "list_all isSpace w2" "list_all isSpace w3"
  shows "cleanResponse (w0 @ ''```json'' @ w1 @ R @ w2 @ ''```'' @ w3) = R"
proof -
  let ?inner = "w1 @ R @ w2"
  let ?X = "''```json'' @ ?inner @ ''```''"
  have c: "Contains (w0 @ ''```json'' @ (w1 @ R @ w2 @ ''```'' @ w3)) ''```json''"
    by (rule Contains_append)
  have "TrimSpace (w0 @ ?X @ w3) = ?X"
    by (rule TrimSpace_strip) (simp_all add: isSpace_def assms)
  then have 1: "TrimSpace (w0 @ ''```json'' @ w1 @ R @ w2 @ ''```'' @ w3) = ''```json'' @ (?inner @ ''```'')"
    by simp
  have 2: "TrimSpace ?inner = R"
    by (rule TrimSpace_record[OF assms(1) assms(3) assms(4)])
  have 3: "TrimSuffix (w1 @ R @ w2 @ ''```'') ''```'' = w1 @ R @ w2"
    using TrimSuffix_append[of "w1 @ R @ w2" "''```''"] by simp
  show ?thesis
    unfolding cleanResponse_def Let_def 1
    using c by (simp only: if_True HasPrefix_append TrimPrefix_append append_assoc 3 2)
qed

lemma parseScores_direct:
  "unmarshal (cleanResponse r) = Inr v \<Longrightarrow> parseScores unmarshal r = Inr v"
  by (simp add: parseScores_def)

lemma parseScores_extract:
  assumes dec: "unmarshal R = Inr s" and rt: "record_text R"
    and pre: "CHR ''{'' \<notin> set pre" and post: "CHR ''}'' \<notin> set post"
    and prose: "isl (unmarshal (cleanResponse (pre @ R @ post)))"
  shows "parseScores unmarshal (pre @ R @ post) = Inr s"
proof -
  from rt obtain mid where R: "R = CHR ''{'' # mid @ ''}''" by (rule record_text_split)
  from cleanResponse_framed[OF pre post, of mid]
  obtain p q where c: "cleanResponse (pre @ R @ post) = p @ CHR ''{'' # mid @ CHR ''}'' # q"
    and p: "CHR ''{'' \<notin> set p" and q: "CHR ''}'' \<notin> set q"
    by (auto simp: R)
  let ?x = "p @ CHR ''{'' # mid @ CHR ''}'' # q"
  note ex = extract_framed[OF p q, of mid]
  from prose obtain e where e: "unmarshal ?x = Inl e"
    unfolding c by (cases "unmarshal ?x") auto
  have sl: "slice ?x (int (length p)) (int (length p) + 1 + int (length mid) + 1) = R"
    using ex(3) unfolding ex(1) ex(2) R .
  show ?thesis
    unfolding parseScores_def c Let_def e ex(1) ex(2) sl
    by (simp add: dec)
qed

text \<open>
  C4 (as amended). Let \<open>R\<close> be a record text that the decoder accepts with the scores \<open>s\<close>.
  Decoding returns \<open>s\<close> when the response is (1) exactly \<open>R\<close>; (2) \<open>R\<close> in a code fence
  opened by \<open>```json\<close>, with white space allowed around the fence and around \<open>R\<close>;
  (3) \<open>R\<close> between a leading prose without an opening brace and a trailing prose without a
  closing brace, the whole not being decodable itself: the substring from the first opening
  brace to the last closing brace is then \<open>R\<close>. The fence is stripped first; the direct
  decoding of what remains comes second and its success is final (last conjunct); the
  substring between the braces is tried last.
\<close>

theorem parseScores_shapes:
  fixes unmarshal :: "string \<Rightarrow> err + 'n Scores"
  assumes dec: "unmarshal R = Inr s" and rt: "record_text R"
    and ws: "list_all isSpace w0" "list_all isSpace w1" "list_all isSpace w2" "list_all isSpace w3"
    and pre: "CHR ''{'' \<notin> set pre" and post: "CHR ''}'' \<notin> set post"
    and prose: "isl (unmarshal (cleanResponse (pre @ R @ post)))"
    and direct: "unmarshal (cleanResponse r) = Inr v"
  shows "parseScores unmarshal R = Inr s
       \<and> parseScores unmarshal (w0 @ ''```json'' @ w1 @ R @ w2 @ ''```'' @ w3) = Inr s
       \<and> parseScores unmarshal (pre @ R @ post) = Inr s
       \<and> parseScores unmarshal r = Inr v"
proof (intro conjI)
  show "parseScores unmarshal R = Inr s"
    by (rule parseScores_direct) (simp add: cleanResponse_record[OF rt] dec)
  show "parseScores unmarshal (w0 @ ''```json'' @ w1 @ R @ w2 @ ''```'' @ w3) = Inr s"
    by (rule parseScores_direct) (simp only: cleanResponse_fenced[OF rt ws] dec)
  show "parseScores unmarshal (pre @ R @ post) = Inr s"
    using dec rt pre post prose by (rule parseScores_extract)
  show "parseScores unmarshal r = Inr v"
    using direct by (rule parseScores_direct)
qed

lemmas decoder_defs = unmarshalFlat_def skip_ws_def isSpace_def read_value_def read_nat_def
  isDigit_def digit_val_def set_field_def set_num_def set_str_def zero_scores_def

lemma example_record_decodes: "unmarshalFlat example_record = Inr example_scores"
  by (simp add: example_record_def example_scores_def decoder_defs)

lemma example_record_text: "record_text example_record"
  by (simp add: example_record_def record_text_def)

lemma example_prose_undecodable:
  "isl (unmarshalFlat (cleanResponse (''Here are the scores: '' @ example_record @ '' Regards.'')))"
  by (simp add: cleanResponse_def HasPrefix_def example_record_def decoder_defs)

theorem parseScores_shapes_witness:
  "unmarshalFlat example_record = Inr example_scores \<and> record_text example_record
   \<and> list_all isSpace [CHR 0x0A] \<and> CHR ''{'' \<notin> set ''Here are the scores: ''
   \<and> CHR ''}'' \<notin> set '' Regards.''
   \<and> isl (unmarshalFlat (cleanResponse (''Here are the scores: '' @ example_record @ '' Regards.'')))
   \<and> parseScores unmarshalFlat example_record = Inr example_scores
   \<and> parseScores unmarshalFlat (''```json'' @ [CHR 0x0A] @ example_record @ [CHR 0x0A] @ ''```'')
       = Inr example_scores
   \<and> parseScores unmarshalFlat (''Here are the scores: '' @ example_record @ '' Regards.'')
       = Inr example_scores"
proof -
  have ws: "list_all isSpace [CHR 0x0A]" "list_all isSpace []"
    by (simp_all add: isSpace_def)
  have pre: "CHR ''{'' \<notin> set ''Here are the scores: ''" by simp
  have post: "CHR ''}'' \<notin> set '' Regards.''" by simp
  have direct: "unmarshalFlat (cleanResponse example_record) = Inr example_scores"
    by (simp add: cleanResponse_record[OF example_record_text] example_record_decodes)
  from parseScores_shapes[OF example_record_decodes example_record_text ws(2) ws(1) ws(1) ws(2)
      pre post example_prose_undecodable direct]
  show ?thesis
    using example_record_decodes example_record_text ws(1) pre post example_prose_undecodable
    by simp
qed

text \<open>
  C4 as stated fails when the prose has a brace of its own: the substring from the first
  opening brace is then not the record, and decoding fails.
\<close>

theorem parseScores_prose_counterexample:
  "unmarshalFlat example_record = Inr example_scores \<and> record_text example_record
   \<and> isl (parseScores unmarshalFlat (''Note {draft}: '' @ example_record))"
proof -
  have "isl (parseScores unmarshalFlat (''Note {draft}: '' @ example_record))"
    by (simp add: parseScores_def cleanResponse_def HasPrefix_def slice_def Let_def
        example_record_def decoder_defs)
  with example_record_decodes example_record_text show ?thesis by simp
qed

text \<open>
  C3. When the reply of the evaluator decodes to the scores \<open>raw\<close>, \<open>ScoreApplicant\<close>
  returns \<open>raw\<close> with its total replaced by the sum of the four sub-scores (experience +
  education + duties + cover letter), whatever total \<open>raw\<close> carried.
\<close>

theorem ScoreApplicant_total:
  fixes unmarshal :: "string \<Rightarrow> err + ('n::plus) Scores"
  assumes "GenerateContent resp = Inr response"
    and "parseScores unmarshal response = Inr raw"
  shows "\<exists>sc. ScoreApplicant unmarshal resp = Inr sc
           \<and> TotalScore sc = ExperienceScore sc + EducationScore sc + DutiesScore sc
                               + CoverLetterScore sc
           \<and> sc = raw\<lparr>TotalScore := ExperienceScore raw + EducationScore raw + DutiesScore raw
                               + CoverLetterScore raw\<rparr>"
  using assms by (simp add: ScoreApplicant_def)

text \<open>
  The example of the specification: the sub-scores 45, 18, 17 and 8 give the total 88,
  although the reply claims the total 10.
\<close>

theorem ScoreApplicant_total_witness:
  "GenerateContent (Inr [ [Text example_record] ]) = Inr example_record
   \<and> parseScores unmarshalFlat example_record = Inr example_scores
   \<and> TotalScore example_scores = 10
   \<and> ScoreApplicant unmarshalFlat (Inr [ [Text example_record] ])
       = Inr (example_scores\<lparr>TotalScore := 88\<rparr>)"
proof -
  have g: "GenerateContent (Inr [ [Text example_record] ]) = Inr example_record"
    by (simp add: GenerateContent_def)
  have p: "parseScores unmarshalFlat example_record = Inr example_scores"
    by (rule parseScores_direct)
      (simp add: cleanResponse_record[OF example_record_text] example_record_decodes)
  from ScoreApplicant_total[OF g p] show ?thesis
    using g p by (auto simp: example_scores_def zero_scores_def)
qed

section \<open>Properties of the ranking and of the evaluation loop\<close>

lemma set_insert_left [simp]: "set (insert_left lt x acc) = insert x (set acc)"
  by (induction acc) auto

lemma mset_insert_left [simp]: "mset (insert_left lt x acc) = add_mset x (mset acc)"
  by (induction acc) auto

lemma mset_foldl_insert_left:
  "mset (foldl (\<lambda>acc x. insert_left lt x acc) acc xs) = mset xs + mset acc"
  by (induction xs arbitrary: acc) auto

lemma mset_sort_Slice [simp]: "mset (sort_Slice lt xs) = mset xs"
  by (simp add: sort_Slice_def mset_foldl_insert_left)

lemma length_sort_Slice [simp]: "length (sort_Slice lt xs) = length xs"
  using mset_sort_Slice[of lt xs] by (metis size_mset)

lemma sorted_insert_left:
  "sorted_wrt (\<lambda>a b. total a \<le> total b) acc
   \<Longrightarrow> sorted_wrt (\<lambda>a b. total a \<le> total b) (insert_left byTotal (x :: ('n::linorder) ApplicantResult) acc)"
  by (induction acc) (auto simp: byTotal_def total_def)

lemma sorted_foldl_insert_left:
  "sorted_wrt (\<lambda>a b. total a \<le> total b) acc
   \<Longrightarrow> sorted_wrt (\<lambda>a b. total a \<le> total b)
         (foldl (\<lambda>acc x. insert_left byTotal x acc) acc (xs :: ('n::linorder) ApplicantResult list))"
  by (induction xs arbitrary: acc) (auto simp: sorted_insert_left)

lemma sorted_sort_Slice:
  "sorted_wrt (\<lambda>a b. total a \<ge> total b) (sort_Slice byTotal (xs :: ('n::linorder) ApplicantResult list))"
  unfolding sort_Slice_def sorted_wrt_rev
  by (rule sorted_foldl_insert_left) simp

lemma assignRanks_nth:
  "i \<le> length rs \<Longrightarrow>
   length (assignRanks i rs) = length rs
   \<and> (\<forall>k < length rs. assignRanks i rs ! k = (if k < i then rs ! k else (rs ! k)\<lparr>Rank := int k + 1\<rparr>))"
proof (induction i rs rule: assignRanks.induct)
  case (1 i rs)
  show ?case
  proof (cases "i < length rs")
    case False
    with 1(2) show ?thesis by (subst assignRanks.simps, subst assignRanks.simps) simp
  next
    case True
    let ?rs = "rs[i := (rs ! i)\<lparr>Rank := int i + 1\<rparr>]"
    from True have "Suc i \<le> length ?rs" by simp
    from 1(1)[OF True this]
    have len: "length (assignRanks (Suc i) ?rs) = length rs"
      and nth: "\<And>k. k < length rs \<Longrightarrow> assignRanks (Suc i) ?rs ! k
          = (if k < Suc i then ?rs ! k else (?rs ! k)\<lparr>Rank := int k + 1\<rparr>)"
      by auto
    have eq: "assignRanks i rs = assignRanks (Suc i) ?rs"
      using True by (subst assignRanks.simps) simp
    show ?thesis
      unfolding eq using len nth True by (auto simp: nth_list_update less_Suc_eq)
  qed
qed

lemma length_assignRanks [simp]: "length (assignRanks 0 rs) = length rs"
  using assignRanks_nth[of 0 rs] by simp

lemma nth_assignRanks:
  "k < length rs \<Longrightarrow> assignRanks 0 rs ! k = (rs ! k)\<lparr>Rank := int k + 1\<rparr>"
  using assignRanks_nth[of 0 rs] by simp

text \<open>
  C9. The ranking step keeps the number of results and gives them the ranks 1, 2, ..., n in
  the order of the sorted list: the ranks are pairwise distinct, whatever the scores, and
  nothing but the rank of a result changes.
\<close>

theorem ranks_consecutive:
  fixes rs :: "('n::linorder) ApplicantResult list"
  shows "length (rankResults rs) = length rs
       \<and> map Rank (rankResults rs) = map (\<lambda>k. int k + 1) [0..<length rs]
       \<and> distinct (map Rank (rankResults rs))
       \<and> map (\<lambda>r. r\<lparr>Rank := 0\<rparr>) (rankResults rs) = map (\<lambda>r. r\<lparr>Rank := 0\<rparr>) (sort_Slice byTotal rs)"
proof -
  let ?s = "sort_Slice byTotal rs"
  have len: "length (rankResults rs) = length rs"
    by (simp add: rankResults_def)
  have ranks: "map Rank (rankResults rs) = map (\<lambda>k. int k + 1) [0..<length rs]"
    by (rule nth_equalityI) (simp_all add: rankResults_def nth_assignRanks)
  have "inj_on (\<lambda>k. int k + 1) (set [0..<length rs])"
    by (auto intro: inj_onI)
  then have dist: "distinct (map Rank (rankResults rs))"
    unfolding ranks by (simp add: distinct_map)
  have same: "map (\<lambda>r. r\<lparr>Rank := 0\<rparr>) (rankResults rs) = map (\<lambda>r. r\<lparr>Rank := 0\<rparr>) ?s"
    by (rule nth_equalityI) (simp_all add: rankResults_def nth_assignRanks)
  from len ranks dist same show ?thesis by blast
qed

text \<open>
  C1 at the scenario of the specification: two applicants with the total 80, the experience
  40 and the duties 15, and the education 12 (Alice) against 18 (Bob). The comparison of
  \<^verbatim>\<open>processApplicants\<close> looks at the total only, so Alice, who comes first in the input, keeps
  the first place and Bob, with the higher education score, is ranked second.
\<close>

theorem ranking_ignores_education:
  "rankResults [alice, bob] = [alice\<lparr>Rank := 1\<rparr>, bob\<lparr>Rank := 2\<rparr>]"
  by (simp add: rankResults_def sort_Slice_def byTotal_def alice_def bob_def zero_scores_def
      assignRanks.simps)

lemmas scoreWithRetry_at =
  scoreWithRetry.simps[of _ _ _ _ 0] scoreWithRetry.simps[of _ _ _ _ "Suc 0"]
  scoreWithRetry.simps[of _ _ _ _ "Suc (Suc 0)"] scoreWithRetry.simps[of _ _ _ _ "Suc (Suc (Suc 0))"]

lemma scoreWithRetry_rate_limited:
  assumes "ScoreApplicant unmarshal (replies 0) = Inl e0" "isRateLimitError (Some e0)"
    and "ScoreApplicant unmarshal (replies 1) = Inl e1" "isRateLimitError (Some e1)"
    and "ScoreApplicant unmarshal (replies 2) = Inl e2"
  shows "scoreWithRetry unmarshal replies doc p 0 cur =
           (Inl e2,
            [Evaluate (Name doc), Progress p 100 (retryMsg doc 0), Sleep 10,
             Evaluate (Name doc), Progress p 100 (retryMsg doc 1), Sleep 10,
             Evaluate (Name doc)])"
  using assms
  by (simp add: scoreWithRetry_at maxRetries_def retryBackoff_def numeral_2_eq_2)

lemma scoreWithRetry_other_error:
  assumes "ScoreApplicant unmarshal (replies 0) = Inl e0" "\<not> isRateLimitError (Some e0)"
  shows "scoreWithRetry unmarshal replies doc p 0 cur = (Inl e0, [Evaluate (Name doc)])"
  using assms by (simp add: scoreWithRetry_at maxRetries_def)

lemma scoreWithRetry_then_other_error:
  assumes "ScoreApplicant unmarshal (replies 0) = Inl e0" "isRateLimitError (Some e0)"
    and "ScoreApplicant unmarshal (replies 1) = Inl e1" "\<not> isRateLimitError (Some e1)"
  shows "scoreWithRetry unmarshal replies doc p 0 cur =
           (Inl e1,
            [Evaluate (Name doc), Progress p 100 (retryMsg doc 0), Sleep 10,
             Evaluate (Name doc)])"
  using assms by (simp add: scoreWithRetry_at maxRetries_def retryBackoff_def)

lemma scoreWithRetry_then_success:
  assumes "ScoreApplicant unmarshal (replies 0) = Inl e0" "isRateLimitError (Some e0)"
    and "ScoreApplicant unmarshal (replies 1) = Inr sc"
  shows "scoreWithRetry unmarshal replies doc p 0 cur =
           (Inr sc,
            [Evaluate (Name doc), Progress p 100 (retryMsg doc 0), Sleep 10,
             Evaluate (Name doc)])"
  using assms by (simp add: scoreWithRetry_at maxRetries_def retryBackoff_def)

lemma scoreWithRetry_bound:
  "length (filter (\<lambda>ev. ev = Evaluate (Name doc)) (snd (scoreWithRetry unmarshal replies doc p 0 cur)))
     \<le> maxRetries"
  by (simp add: scoreWithRetry_at maxRetries_def split: sum.split prod.split)

lemma evaluate_loop_not_cancelled:
  "(\<forall>j. \<not> ctx (AtApplicant j)) \<Longrightarrow> \<exists>rs. fst (evaluate_loop unmarshal llm ctx n i docs res) = Inr rs"
proof (induction docs arbitrary: i res)
  case Nil
  show ?case by simp
next
  case (Cons d docs)
  obtain r evs where s: "scoreWithRetry unmarshal (llm i) d (progressOf i n) 0 (Inr zero_scores) = (r, evs)"
    by (cases "scoreWithRetry unmarshal (llm i) d (progressOf i n) 0 (Inr zero_scores)")
  let ?res = "case r of Inr scores \<Rightarrow> res @ [newResult d scores] | Inl _ \<Rightarrow> res"
  from Cons.IH[OF Cons.prems, of "Suc i" ?res]
  obtain rs where "fst (evaluate_loop unmarshal llm ctx n (Suc i) docs ?res) = Inr rs" by blast
  with Cons.prems s show ?case
    by (cases "evaluate_loop unmarshal llm ctx n (Suc i) docs ?res") simp
qed

text \<open>
  C6. For an applicant whose turn is reached without cancellation, with the results \<open>res\<close>
  collected so far:
  \<^item> when the first two calls of the evaluator fail with errors classified as rate limiting
    and the third fails too, the applicant is evaluated three times, with a pause of 10
    seconds after each of the first two attempts, and is then skipped;
  \<^item> when the first call fails with another error, the applicant is skipped after that
    single call; when the first call fails with a rate-limit error and the second with
    another error, the applicant is skipped after the second call;
  \<^item> when the first call fails with a rate-limit error and the second succeeds, the result
    of the second call is appended.
  In every case the loop goes on with the next applicant. The evaluator is never called more
  than three times for one applicant, and a run that is not cancelled ends without error,
  whatever the evaluator answers.
\<close>

theorem retry_policy:
  fixes unmarshal :: "string \<Rightarrow> err + ('n::{plus,zero,linorder}) Scores"
  shows
    "(\<not> ctx (AtApplicant i)
        \<and> ScoreApplicant unmarshal (llm i 0) = Inl e0 \<and> isRateLimitError (Some e0)
        \<and> ScoreApplicant unmarshal (llm i 1) = Inl e1 \<and> isRateLimitError (Some e1)
        \<and> ScoreApplicant unmarshal (llm i 2) = Inl e2
      \<longrightarrow> evaluate_loop unmarshal llm ctx n i (doc # docs) res =
            (fst (evaluate_loop unmarshal llm ctx n (Suc i) docs res),
             [Progress (progressOf i n) 100 (evaluatingMsg doc i n),
              Evaluate (Name doc), Progress (progressOf i n) 100 (retryMsg doc 0), Sleep 10,
              Evaluate (Name doc), Progress (progressOf i n) 100 (retryMsg doc 1), Sleep 10,
              Evaluate (Name doc)]
             @ delayEvents i n @ snd (evaluate_loop unmarshal llm ctx n (Suc i) docs res)))
     \<and> (\<not> ctx (AtApplicant i)
        \<and> ScoreApplicant unmarshal (llm i 0) = Inl e0 \<and> \<not> isRateLimitError (Some e0)
      \<longrightarrow> evaluate_loop unmarshal llm ctx n i (doc # docs) res =
            (fst (evaluate_loop unmarshal llm ctx n (Suc i) docs res),
             [Progress (progressOf i n) 100 (evaluatingMsg doc i n), Evaluate (Name doc)]
             @ delayEvents i n @ snd (evaluate_loop unmarshal llm ctx n (Suc i) docs res)))
     \<and> (\<not> ctx (AtApplicant i)
        \<and> ScoreApplicant unmarshal (llm i 0) = Inl e0 \<and> isRateLimitError (Some e0)
        \<and> ScoreApplicant unmarshal (llm i 1) = Inl e1 \<and> \<not> isRateLimitError (Some e1)
      \<longrightarrow> evaluate_loop unmarshal llm ctx n i (doc # docs) res =
            (fst (evaluate_loop unmarshal llm ctx n (Suc i) docs res),
             [Progress (progressOf i n) 100 (evaluatingMsg doc i n),
              Evaluate (Name doc), Progress (progressOf i n) 100 (retryMsg doc 0), Sleep 10,
              Evaluate (Name doc)]
             @ delayEvents i n @ snd (evaluate_loop unmarshal llm ctx n (Suc i) docs res)))
     \<and> (\<not> ctx (AtApplicant i)
        \<and> ScoreApplicant unmarshal (llm i 0) = Inl e0 \<and> isRateLimitError (Some e0)
        \<and> ScoreApplicant unmarshal (llm i 1) = Inr sc
      \<longrightarrow> evaluate_loop unmarshal llm ctx n i (doc # docs) res =
            (fst (evaluate_loop unmarshal llm ctx n (Suc i) docs (res @ [newResult doc sc])),
             [Progress (progressOf i n) 100 (evaluatingMsg doc i n),
              Evaluate (Name doc), Progress (progressOf i n) 100 (retryMsg doc 0), Sleep 10,
              Evaluate (Name doc)]
             @ delayEvents i n
             @ snd (evaluate_loop unmarshal llm ctx n (Suc i) docs (res @ [newResult doc sc]))))
     \<and> length (filter (\<lambda>ev. ev = Evaluate (Name doc))
                 (snd (scoreWithRetry unmarshal (llm i) doc (progressOf i n) 0 (Inr zero_scores))))
         \<le> 3
     \<and> ((\<forall>j. \<not> ctx (AtApplicant j))
      \<longrightarrow> fst (processApplicants unmarshal llm ctx documents a) = None)"
proof (intro conjI impI)
  assume "\<not> ctx (AtApplicant i)
        \<and> ScoreApplicant unmarshal (llm i 0) = Inl e0 \<and> isRateLimitError (Some e0)
        \<and> ScoreApplicant unmarshal (llm i 1) = Inl e1 \<and> isRateLimitError (Some e1)
        \<and> ScoreApplicant unmarshal (llm i 2) = Inl e2"
  then show "evaluate_loop unmarshal llm ctx n i (doc # docs) res =
            (fst (evaluate_loop unmarshal llm ctx n (Suc i) docs res),
             [Progress (progressOf i n) 100 (evaluatingMsg doc i n),
              Evaluate (Name doc), Progress (progressOf i n) 100 (retryMsg doc 0), Sleep 10,
              Evaluate (Name doc), Progress (progressOf i n) 100 (retryMsg doc 1), Sleep 10,
              Evaluate (Name doc)]
             @ delayEvents i n @ snd (evaluate_loop unmarshal llm ctx n (Suc i) docs res))"
    by (simp add: scoreWithRetry_rate_limited[of unmarshal "llm i" e0 e1 e2] split: prod.split)
next
  assume "\<not> ctx (AtApplicant i)
        \<and> ScoreApplicant unmarshal (llm i 0) = Inl e0 \<and> \<not> isRateLimitError (Some e0)"
  then show "evaluate_loop unmarshal llm ctx n i (doc # docs) res =
            (fst (evaluate_loop unmarshal llm ctx n (Suc i) docs res),
             [Progress (progressOf i n) 100 (evaluatingMsg doc i n), Evaluate (Name doc)]
             @ delayEvents i n @ snd (evaluate_loop unmarshal llm ctx n (Suc i) docs res))"
    by (simp add: scoreWithRetry_other_error[of unmarshal "llm i" e0] split: prod.split)
next
  assume "\<not> ctx (AtApplicant i)
        \<and> ScoreApplicant unmarshal (llm i 0) = Inl e0 \<and> isRateLimitError (Some e0)
        \<and> ScoreApplicant unmarshal (llm i 1) = Inl e1 \<and> \<not> isRateLimitError (Some e1)"
  then show "evaluate_loop unmarshal llm ctx n i (doc # docs) res =
            (fst (evaluate_loop unmarshal llm ctx n (Suc i) docs res),
             [Progress (progressOf i n) 100 (evaluatingMsg doc i n),
              Evaluate (Name doc), Progress (progressOf i n) 100 (retryMsg doc 0), Sleep 10,
              Evaluate (Name doc)]
             @ delayEvents i n @ snd (evaluate_loop unmarshal llm ctx n (Suc i) docs res))"
    by (simp add: scoreWithRetry_then_other_error[of unmarshal "llm i" e0 e1] split: prod.split)
next
  assume "\<not> ctx (AtApplicant i)
        \<and> ScoreApplicant unmarshal (llm i 0) = Inl e0 \<and> isRateLimitError (Some e0)
        \<and> ScoreApplicant unmarshal (llm i 1) = Inr sc"
  then show "evaluate_loop unmarshal llm ctx n i (doc # docs) res =
            (fst (evaluate_loop unmarshal llm ctx n (Suc i) docs (res @ [newResult doc sc])),
             [Progress (progressOf i n) 100 (evaluatingMsg doc i n),
              Evaluate (Name doc), Progress (progressOf i n) 100 (retryMsg doc 0), Sleep 10,
              Evaluate (Name doc)]
             @ delayEvents i n
             @ snd (evaluate_loop unmarshal llm ctx n (Suc i) docs (res @ [newResult doc sc])))"
    by (simp add: scoreWithRetry_then_success[of unmarshal "llm i" e0 sc] split: prod.split)
next
  show "length (filter (\<lambda>ev. ev = Evaluate (Name doc))
                 (snd (scoreWithRetry unmarshal (llm i) doc (progressOf i n) 0 (Inr zero_scores))))
         \<le> 3"
    using scoreWithRetry_bound[of doc unmarshal "llm i"] by (simp add: maxRetries_def)
next
  assume "\<forall>j. \<not> ctx (AtApplicant j)"
  from evaluate_loop_not_cancelled[OF this]
  obtain rs where "fst (evaluate_loop unmarshal llm ctx (length documents) 0 documents []) = Inr rs"
    by blast
  then show "fst (processApplicants unmarshal llm ctx documents a) = None"
    by (cases "evaluate_loop unmarshal llm ctx (length documents) 0 documents []")
       (simp add: processApplicants_def)
qed

text \<open>
  The four cases on the four applicants of the examples: three calls for Ann, one for Ben,
  two for Cy, two for Dee, whose result alone is collected, and no error at the end.
\<close>

theorem retry_policy_witness:
  "isRateLimitError (Some exhausted) \<and> \<not> isRateLimitError (Some timed_out)
   \<and> (\<forall>a. ScoreApplicant unmarshalFlat (busy_llm 0 a) = Inl exhausted)
   \<and> ScoreApplicant unmarshalFlat (busy_llm 1 0) = Inl timed_out
   \<and> ScoreApplicant unmarshalFlat (busy_llm 2 0) = Inl exhausted
   \<and> ScoreApplicant unmarshalFlat (busy_llm 2 1) = Inl timed_out
   \<and> ScoreApplicant unmarshalFlat (busy_llm 3 0) = Inl exhausted
   \<and> ScoreApplicant unmarshalFlat (busy_llm 3 1) = Inr (example_scores\<lparr>TotalScore := 88\<rparr>)
   \<and> (\<forall>j. \<not> never_done (AtApplicant j))
   \<and> evaluate_loop unmarshalFlat busy_llm never_done 4 0 [ann, ben, cy, dee] [] =
       (Inr [newResult dee (example_scores\<lparr>TotalScore := 88\<rparr>)],
        [Progress 60 100 ''Evaluating Ann (1/4)'',
         Evaluate ''Ann'', Progress 60 100 ''Rate limit - retrying Ann (attempt 1/3)'', Sleep 10,
         Evaluate ''Ann'', Progress 60 100 ''Rate limit - retrying Ann (attempt 2/3)'', Sleep 10,
         Evaluate ''Ann'',
         Progress 60 100 ''Rate limit delay before next applicant...'', Sleep 4,
         Progress 68 100 ''Evaluating Ben (2/4)'', Evaluate ''Ben'',
         Progress 68 100 ''Rate limit delay before next applicant...'', Sleep 4,
         Progress 77 100 ''Evaluating Cy (3/4)'',
         Evaluate ''Cy'', Progress 77 100 ''Rate limit - retrying Cy (attempt 1/3)'', Sleep 10,
         Evaluate ''Cy'',
         Progress 77 100 ''Rate limit delay before next applicant...'', Sleep 4,
         Progress 86 100 ''Evaluating Dee (4/4)'',
         Evaluate ''Dee'', Progress 86 100 ''Rate limit - retrying Dee (attempt 1/3)'', Sleep 10,
         Evaluate ''Dee''])
   \<and> fst (processApplicants unmarshalFlat busy_llm never_done [ann, ben, cy, dee] new_agent) = None"
proof -
  have rl: "isRateLimitError (Some exhausted)"
    by (simp add: isRateLimitError_def exhausted_def HasPrefix_def)
  have nrl: "\<not> isRateLimitError (Some timed_out)"
    by (simp add: isRateLimitError_def timed_out_def HasPrefix_def)
  have s0: "ScoreApplicant unmarshalFlat (busy_llm 0 a) = Inl exhausted" for a
    by (simp add: ScoreApplicant_def GenerateContent_def busy_llm_def exhausted_def)
  have s1: "ScoreApplicant unmarshalFlat (busy_llm 1 0) = Inl timed_out"
    by (simp add: ScoreApplicant_def GenerateContent_def busy_llm_def timed_out_def)
  have s20: "ScoreApplicant unmarshalFlat (busy_llm 2 0) = Inl exhausted"
    by (simp add: ScoreApplicant_def GenerateContent_def busy_llm_def exhausted_def)
  have s21: "ScoreApplicant unmarshalFlat (busy_llm 2 1) = Inl timed_out"
    by (simp add: ScoreApplicant_def GenerateContent_def busy_llm_def timed_out_def)
  have s30: "ScoreApplicant unmarshalFlat (busy_llm 3 0) = Inl exhausted"
    by (simp add: ScoreApplicant_def GenerateContent_def busy_llm_def exhausted_def)
  have "parseScores unmarshalFlat example_record = Inr example_scores"
    by (rule parseScores_direct)
      (simp add: cleanResponse_record[OF example_record_text] example_record_decodes)
  then have s31: "ScoreApplicant unmarshalFlat (busy_llm 3 1) = Inr (example_scores\<lparr>TotalScore := 88\<rparr>)"
    by (simp add: ScoreApplicant_def GenerateContent_def busy_llm_def example_scores_def
        zero_scores_def)
  have nd: "\<forall>j. \<not> never_done (AtApplicant j)"
    by (simp add: never_done_def)
  note msgs = progressOf_def evaluatingMsg_def retryMsg_def delayEvents_def maxRetries_def
    requestDelay_def fmt_d_def decimal.simps digit_def
  note pol3 = retry_policy[where ctx = never_done and i = 3 and unmarshal = unmarshalFlat
      and llm = busy_llm and ?e0.0 = exhausted and sc = "example_scores\<lparr>TotalScore := 88\<rparr>"
      and n = 4 and doc = dee and docs = "[]" and res = "[]"]
  note pol2 = retry_policy[where ctx = never_done and i = 2 and unmarshal = unmarshalFlat
      and llm = busy_llm and ?e0.0 = exhausted and ?e1.0 = timed_out
      and n = 4 and doc = cy and docs = "[dee]" and res = "[]"]
  note pol1 = retry_policy[where ctx = never_done and i = 1 and unmarshal = unmarshalFlat
      and llm = busy_llm and ?e0.0 = timed_out and n = 4 and doc = ben and docs = "[cy, dee]"
      and res = "[]"]
  note pol0 = retry_policy[where ctx = never_done and i = 0 and unmarshal = unmarshalFlat
      and llm = busy_llm and ?e0.0 = exhausted and ?e1.0 = exhausted and ?e2.0 = exhausted
      and n = 4 and doc = ann and docs = "[ben, cy, dee]" and res = "[]"
      and documents = "[ann, ben, cy, dee]" and a = new_agent]
  from pol3 nd s30 s31 rl
  have l3: "evaluate_loop unmarshalFlat busy_llm never_done 4 3 [dee] [] =
      (Inr [newResult dee (example_scores\<lparr>TotalScore := 88\<rparr>)],
       [Progress 86 100 ''Evaluating Dee (4/4)'',
        Evaluate ''Dee'', Progress 86 100 ''Rate limit - retrying Dee (attempt 1/3)'', Sleep 10,
        Evaluate ''Dee''])"
    by (simp del: evaluate_loop.simps(2) add: msgs dee_def numeral_2_eq_2 numeral_3_eq_3)
  from pol2 nd s20 s21 rl nrl l3
  have l2: "evaluate_loop unmarshalFlat busy_llm never_done 4 2 [cy, dee] [] =
      (Inr [newResult dee (example_scores\<lparr>TotalScore := 88\<rparr>)],
       [Progress 77 100 ''Evaluating Cy (3/4)'',
        Evaluate ''Cy'', Progress 77 100 ''Rate limit - retrying Cy (attempt 1/3)'', Sleep 10,
        Evaluate ''Cy'',
        Progress 77 100 ''Rate limit delay before next applicant...'', Sleep 4,
        Progress 86 100 ''Evaluating Dee (4/4)'',
        Evaluate ''Dee'', Progress 86 100 ''Rate limit - retrying Dee (attempt 1/3)'', Sleep 10,
        Evaluate ''Dee''])"
    by (simp del: evaluate_loop.simps(2) add: msgs cy_def numeral_2_eq_2 numeral_3_eq_3)
  from pol1 nd s1 nrl l2
  have l1: "evaluate_loop unmarshalFlat busy_llm never_done 4 (Suc 0) [ben, cy, dee] [] =
      (Inr [newResult dee (example_scores\<lparr>TotalScore := 88\<rparr>)],
       [Progress 68 100 ''Evaluating Ben (2/4)'', Evaluate ''Ben'',
        Progress 68 100 ''Rate limit delay before next applicant...'', Sleep 4,
        Progress 77 100 ''Evaluating Cy (3/4)'',
        Evaluate ''Cy'', Progress 77 100 ''Rate limit - retrying Cy (attempt 1/3)'', Sleep 10,
        Evaluate ''Cy'',
        Progress 77 100 ''Rate limit delay before next applicant...'', Sleep 4,
        Progress 86 100 ''Evaluating Dee (4/4)'',
        Evaluate ''Dee'', Progress 86 100 ''Rate limit - retrying Dee (attempt 1/3)'', Sleep 10,
        Evaluate ''Dee''])"
    by (simp del: evaluate_loop.simps(2) add: msgs ben_def numeral_2_eq_2 numeral_3_eq_3)
  from pol0 nd s0 rl l1
  have l0: "evaluate_loop unmarshalFlat busy_llm never_done 4 0 [ann, ben, cy, dee] [] =
       (Inr [newResult dee (example_scores\<lparr>TotalScore := 88\<rparr>)],
        [Progress 60 100 ''Evaluating Ann (1/4)'',
         Evaluate ''Ann'', Progress 60 100 ''Rate limit - retrying Ann (attempt 1/3)'', Sleep 10,
         Evaluate ''Ann'', Progress 60 100 ''Rate limit - retrying Ann (attempt 2/3)'', Sleep 10,
         Evaluate ''Ann'',
         Progress 60 100 ''Rate limit delay before next applicant...'', Sleep 4,
         Progress 68 100 ''Evaluating Ben (2/4)'', Evaluate ''Ben'',
         Progress 68 100 ''Rate limit delay before next applicant...'', Sleep 4,
         Progress 77 100 ''Evaluating Cy (3/4)'',
         Evaluate ''Cy'', Progress 77 100 ''Rate limit - retrying Cy (attempt 1/3)'', Sleep 10,
         Evaluate ''Cy'',
         Progress 77 100 ''Rate limit delay before next applicant...'', Sleep 4,
         Progress 86 100 ''Evaluating Dee (4/4)'',
         Evaluate ''Dee'', Progress 86 100 ''Rate limit - retrying Dee (attempt 1/3)'', Sleep 10,
         Evaluate ''Dee''])"
    by (simp del: evaluate_loop.simps(2) add: msgs ann_def numeral_2_eq_2 numeral_3_eq_3)
  from pol0 nd
  have "fst (processApplicants unmarshalFlat busy_llm never_done [ann, ben, cy, dee] new_agent) = None"
    by blast
  with rl nrl s0 s1 s20 s21 s30 s31 nd l0 show ?thesis by blast
qed

section \<open>Properties of the runs\<close>

text \<open>
  C2 on a run from the mailbox in which every step succeeds. The agent reports 0, 5 and 10
  before the fetch; the first report of the mail handler is 0 of 100, which the callback of
  the agent maps to 0, so the percentage falls from 10 to 0, and the sequence of the
  percentages of the run is not monotone. In the fetch itself, the estimate during the
  listing is 20 for every hundred messages listed: with three pages of a hundred messages
  the handler reports 20 and 40 and then 20 when the listing is complete.
\<close>

theorem gmail_progress_regresses:
  "fst (IngestFromGmailWithContext unmarshalFlat example_world ''Application'' new_agent) = None
   \<and> percentages (snd (snd (IngestFromGmailWithContext unmarshalFlat example_world ''Application''
        new_agent)))
      = [0, 5, 10, 0, 8, 8, 40, 40, 50, 60, 60, 95, 100]
   \<and> \<not> sorted (percentages (snd (snd (IngestFromGmailWithContext unmarshalFlat example_world
        ''Application'' new_agent))))
   \<and> percentages (snd (FetchAttachmentsWithContext (done_at (AtItem 0)) three_pages
        ''Application''))
      = [0, 20, 40, 20]"
  by code_simp

text \<open>
  C5 on a message whose retrieval fails every time. \<^verbatim>\<open>processMessageWithRetry\<close> is called
  with \<^verbatim>\<open>retries = 3\<close> and its loop runs while \<^verbatim>\<open>attempt <= retries\<close>: the message is
  retrieved four times, with pauses of 1, 2 and 3 seconds before the retries. The fetch then
  skips the message and goes on with the next one.
\<close>

theorem fourth_attempt:
  "processMessageWithRetry never_done failing_get 0 ''m0'' 3 =
     (Some (Wrap ''unable to retrieve message: '' (Msg ''googleapi: Error 500'') []),
      [GetMessage ''m0'', Sleep 1, GetMessage ''m0'', Sleep 2, GetMessage ''m0'', Sleep 3,
       GetMessage ''m0''])
   \<and> length (filter (\<lambda>ev. ev = GetMessage ''m0'')
               (snd (processMessageWithRetry never_done failing_get 0 ''m0'' 3))) = 4
   \<and> FetchAttachmentsWithContext never_done two_mails ''Application'' =
     (None,
      [Progress 0 100 ''Listing emails...'', ListMessages,
       Progress 20 100 ''Processing 2 emails...'',
       Progress 20 100 ''Processing email 1/2'',
       GetMessage ''m0'', Sleep 1, GetMessage ''m0'', Sleep 2, GetMessage ''m0'', Sleep 3,
       GetMessage ''m0'',
       Progress 60 100 ''Processing email 2/2'',
       GetMessage ''m1'', GetAttachment ''m1'' ''att1'', WriteFile ''AnnLee_CV.txt'',
       Progress 100 100 ''Downloaded 1 attachments''])"
  by code_simp

text \<open>
  C7 on a run from the mailbox that is cancelled before the first page is listed. The fetch
  returns \<^verbatim>\<open>ctx.Err()\<close>, and \<^verbatim>\<open>IngestFromGmailWithContext\<close> returns it inside
  \<^verbatim>\<open>fmt.Errorf("failed to fetch Gmail attachments: %w", err)\<close>: the error of the run is not
  \<^verbatim>\<open>context.Canceled\<close> (only \<^verbatim>\<open>errors.Is\<close> finds it inside), and the window, which compares
  with \<^verbatim>\<open>==\<close>, shows it as an error.
  A cancellation seen in the evaluation loop is returned as it is, and the evaluator is not
  called for the applicants that follow.
\<close>

theorem gmail_cancel_is_wrapped:
  "fst (IngestFromGmailWithContext unmarshalFlat (example_world\<lparr>Ctx := done_at (AtPage 0)\<rparr>)
          ''Application'' new_agent)
     = Some (Wrap ''failed to fetch Gmail attachments: '' Canceled [])
   \<and> Wrap ''failed to fetch Gmail attachments: '' Canceled [] \<noteq> Canceled
   \<and> Is_Canceled (Wrap ''failed to fetch Gmail attachments: '' Canceled [])
   \<and> progressLabel (Wrap ''failed to fetch Gmail attachments: '' Canceled [])
     = ''Error: failed to fetch Gmail attachments: context canceled''
   \<and> processApplicants unmarshalFlat (LLM example_world) (done_at (AtApplicant 1)) [ann, ben]
        new_agent
     = (Some Canceled, new_agent,
        [Progress 60 100 ''Evaluating Ann (1/2)'', Evaluate ''Ann'',
         Progress 60 100 ''Rate limit delay before next applicant...'', Sleep 4])
   \<and> progressLabel Canceled = ''Processing canceled''"
  by code_simp

text \<open>
  C10. When the uploads directory does not exist, \<^verbatim>\<open>LoadDocuments\<close> returns the empty list
  and no error (an unreadable directory gives an error instead), and a run from the uploads
  that has decoded the job description and created the client of the remote model fails
  with the error \<open>no documents found in uploads directory\<close>.
\<close>

theorem missing_uploads_directory:
  fixes unmarshal :: "string \<Rightarrow> err + ('n::{plus,zero,linorder}) Scores"
  shows
  "LoadDocuments uploadsDir NotExist = Inr []
   \<and> LoadDocuments uploadsDir (ReadDirError e) = Inl (Wrap ''failed to read uploads directory: '' e [])
   \<and> (Dir w = NotExist \<and> fst (ParseJob w) = None \<and> NewVertexAIClient w = None
      \<longrightarrow> IngestFromUploadWithContext unmarshal w a =
            (Some (Msg ''no documents found in uploads directory''),
             a\<lparr>jobDesc := snd (ParseJob w)\<rparr>,
             [Progress 0 100 ''Initializing LLM client...'',
              Progress 10 100 ''Loading documents...'']))"
  by (simp add: LoadDocuments_def IngestFromUploadWithContext_def Let_def)

theorem missing_uploads_directory_witness:
  "Dir (example_world\<lparr>Dir := NotExist\<rparr>) = NotExist
   \<and> fst (ParseJob (example_world\<lparr>Dir := NotExist\<rparr>)) = None
   \<and> NewVertexAIClient (example_world\<lparr>Dir := NotExist\<rparr>) = None
   \<and> LoadDocuments ''uploads'' (Dir (example_world\<lparr>Dir := NotExist\<rparr>)) = Inr []
   \<and> IngestFromUploadWithContext unmarshalFlat (example_world\<lparr>Dir := NotExist\<rparr>) new_agent =
       (Some (Msg ''no documents found in uploads directory''), new_agent,
        [Progress 0 100 ''Initializing LLM client...'', Progress 10 100 ''Loading documents...''])"
  using missing_uploads_directory[where w = "example_world\<lparr>Dir := NotExist\<rparr>" and a = new_agent
      and unmarshal = unmarshalFlat and uploadsDir = "''uploads''"]
  by (simp add: example_world_def new_agent_def)

end
